theory Spec2Isabelle
  imports Complex_Main
begin

section \<open>Payment gateway orchestration (saleor/payment/gateway.py)\<close>

text \<open>
  A shallow embedding of the orchestrators of \<^verbatim>\<open>saleor/payment/gateway.py\<close>.
  Python exceptions are values of the type \<open>exn\<close> and every call returns a pair of
  an outcome (\<open>Inl\<close> the raised exception, \<open>Inr\<close> the returned value) and the state
  afterwards. The state holds the database (payment rows and the transaction ledger,
  both rolled back when an exception leaves \<^verbatim>\<open>transaction.atomic()\<close>) and a trace of
  the effects outside the database (row locks requested, gateway calls, runs of the
  post-processing hook), which no rollback undoes. Amounts (\<^verbatim>\<open>Decimal\<close>) are rationals.
\<close>

subsection \<open>Data model\<close>

text \<open>
  Modelled from the spec: \<^verbatim>\<open>TransactionKind\<close> (saleor/payment/__init__.py) is imported by
  gateway.py; the spec lists its members.
\<close>

datatype TransactionKind =
  AUTH | CAPTURE | VOID | REFUND | CONFIRM | EXTERNAL | ACTION_TO_CONFIRM | CANCEL

text \<open>
  Modelled from the spec: the string of each member of \<^verbatim>\<open>TransactionKind\<close>, which the
  f-string of \<^verbatim>\<open>_get_past_transaction_token\<close> prints; the constants are declared in
  saleor/payment/__init__.py and the spec writes them as below.
\<close>

fun kind_str :: "TransactionKind \<Rightarrow> string" where
  "kind_str AUTH = ''AUTH''"
| "kind_str CAPTURE = ''CAPTURE''"
| "kind_str VOID = ''VOID''"
| "kind_str REFUND = ''REFUND''"
| "kind_str CONFIRM = ''CONFIRM''"
| "kind_str EXTERNAL = ''EXTERNAL''"
| "kind_str ACTION_TO_CONFIRM = ''ACTION_TO_CONFIRM''"
| "kind_str CANCEL = ''CANCEL''"

text \<open>The exception classes gateway.py raises or catches, and any other exception.\<close>

datatype exn =
  PaymentError string
| GatewayError string
| DoesNotExist
| OtherError string

text \<open>
  Modelled from the spec: the \<^verbatim>\<open>Payment\<close> model (saleor/payment/models.py); the
  fields are the attributes gateway.py reads and the spec names.
\<close>

record Payment =
  pid :: nat
  gateway :: string
  is_active :: bool
  captured_amount :: rat
  total :: rat
  is_manual :: bool
  method_details :: "string option"

text \<open>
  Modelled from the spec: the \<^verbatim>\<open>Transaction\<close> model (saleor/payment/models.py);
  \<open>txn_id\<close> is the primary key of the row.
\<close>

record Transaction =
  txn_id :: nat
  payment_id :: nat
  kind :: TransactionKind
  token :: string
  is_success :: bool
  action_required :: bool
  gateway_response :: string
  error :: "string option"

text \<open>
  Modelled from the spec: \<^verbatim>\<open>GatewayResponse\<close> (saleor/payment/interface.py), which
  minimally carries a success flag, a correlating token, the action-required flag,
  optional payment-method metadata and an opaque raw payload.
\<close>

record GatewayResponse =
  gr_is_success :: bool
  transaction_id :: string
  gr_action_required :: bool
  gr_error :: "string option"
  payment_method_info :: "string option"
  raw_response :: string

text \<open>
  Modelled from the spec: \<^verbatim>\<open>PaymentData\<close>, the payload built by
  \<^verbatim>\<open>create_payment_information\<close> (saleor/payment/utils.py) from its arguments.
\<close>

record PaymentData =
  pd_payment_id :: nat
  pd_gateway :: string
  pd_token :: string
  pd_amount :: "rat option"
  pd_store_source :: bool
  pd_additional_data :: "(string \<times> string) list option"

text \<open>What a call of a gateway function of the plugin manager does: return or raise.\<close>

datatype gw_outcome = Returns GatewayResponse | Raises exn

text \<open>The plugin manager: one gateway function per operation, taken as a parameter.\<close>

record PluginsManager =
  pm_process_payment :: "string \<Rightarrow> PaymentData \<Rightarrow> gw_outcome"
  pm_authorize_payment :: "string \<Rightarrow> PaymentData \<Rightarrow> gw_outcome"
  pm_capture_payment :: "string \<Rightarrow> PaymentData \<Rightarrow> gw_outcome"
  pm_refund_payment :: "string \<Rightarrow> PaymentData \<Rightarrow> gw_outcome"
  pm_void_payment :: "string \<Rightarrow> PaymentData \<Rightarrow> gw_outcome"
  pm_confirm_payment :: "string \<Rightarrow> PaymentData \<Rightarrow> gw_outcome"

datatype gateway_fn =
  ProcessPayment | AuthorizePayment | CapturePayment | RefundPayment | VoidPayment
| ConfirmPayment

text \<open>The effects outside the database, in the order they happen.\<close>

datatype event =
  SelectForUpdate nat
| GatewayCall gateway_fn string PaymentData
| Postprocess Transaction nat

record state =
  payments :: "nat \<rightharpoonup> Payment"
  ledger :: "Transaction list"
  trace :: "event list"

text \<open>
  The collaborators of gateway.py whose code the module only imports, as parameters:
  the plugin manager, the validation of a gateway response and the cleaning functions
  (\<open>Some msg\<close> when they raise, \<open>GatewayError msg\<close> and \<open>PaymentError msg\<close>
  respectively), and \<^verbatim>\<open>Payment.can_refund\<close> and \<^verbatim>\<open>Payment.can_void\<close>.
\<close>

record env =
  get_plugins_manager :: PluginsManager
  validate_gateway_response :: "GatewayResponse \<Rightarrow> string option"
  clean_authorize :: "Payment \<Rightarrow> string option"
  clean_capture :: "Payment \<Rightarrow> rat \<Rightarrow> string option"
  can_refund :: "Payment \<Rightarrow> bool"
  can_void :: "Payment \<Rightarrow> bool"

type_synonym 'a result = "(exn + 'a) \<times> state"

subsection \<open>Constants and decorators\<close>

definition ERROR_MSG :: string where
  "ERROR_MSG = ''Oops! Something went wrong.''"

definition GENERIC_TRANSACTION_ERROR :: string where
  "GENERIC_TRANSACTION_ERROR = ''Transaction was unsuccessful.''"

text \<open>\<^verbatim>\<open>result.error or GENERIC_TRANSACTION_ERROR\<close>: \<^verbatim>\<open>None\<close> and the empty string are falsy.\<close>

definition error_or_generic :: "Transaction \<Rightarrow> string" where
  "error_or_generic result =
     (case error result of
        None \<Rightarrow> GENERIC_TRANSACTION_ERROR
      | Some m \<Rightarrow> if m = [] then GENERIC_TRANSACTION_ERROR else m)"

definition raise_payment_error ::
  "(Payment \<Rightarrow> state \<Rightarrow> Transaction result) \<Rightarrow> Payment \<Rightarrow> state \<Rightarrow> Transaction result" where
  "raise_payment_error fn payment s =
     (case fn payment s of
        (Inl e, s') \<Rightarrow> (Inl e, s')
      | (Inr result, s') \<Rightarrow>
          if \<not> is_success result then (Inl (PaymentError (error_or_generic result)), s')
          else (Inr result, s'))"

text \<open>
  Modelled from the spec: \<^verbatim>\<open>gateway_postprocess\<close> (saleor/payment/utils.py), the
  side-effecting hook run against a transaction and its payment. What it changes is not
  specified; the model records every run.
\<close>

definition gateway_postprocess :: "Transaction \<Rightarrow> nat \<Rightarrow> state \<Rightarrow> state" where
  "gateway_postprocess txn p s = s\<lparr>trace := trace s @ [Postprocess txn p]\<rparr>"

definition payment_postprocess ::
  "(Payment \<Rightarrow> state \<Rightarrow> Transaction result) \<Rightarrow> Payment \<Rightarrow> state \<Rightarrow> Transaction result" where
  "payment_postprocess fn payment s =
     (case fn payment s of
        (Inl e, s') \<Rightarrow> (Inl e, s')
      | (Inr txn, s') \<Rightarrow> (Inr txn, gateway_postprocess txn (payment_id txn) s'))"

definition require_active_payment ::
  "(Payment \<Rightarrow> state \<Rightarrow> Transaction result) \<Rightarrow> Payment \<Rightarrow> state \<Rightarrow> Transaction result" where
  "require_active_payment fn payment s =
     (if \<not> is_active payment then (Inl (PaymentError ''This payment is no longer active.''), s)
      else fn payment s)"

text \<open>
  \<^verbatim>\<open>Payment.objects.select_for_update().get(id=payment.id)\<close>: the row of the payment is
  read from the database under its lock; \<^verbatim>\<open>DoesNotExist\<close> when there is none.
\<close>

definition select_for_update :: "Payment \<Rightarrow> state \<Rightarrow> Payment result" where
  "select_for_update payment s =
     (let s1 = s\<lparr>trace := trace s @ [SelectForUpdate (pid payment)]\<rparr> in
      case payments s (pid payment) of
        None \<Rightarrow> (Inl DoesNotExist, s1)
      | Some row \<Rightarrow> (Inr row, s1))"

text \<open>
  \<^verbatim>\<open>with transaction.atomic():\<close> an exception that leaves the block rolls the database
  back to what it was on entry, a return commits it.
\<close>

definition with_locked_payment ::
  "(Payment \<Rightarrow> state \<Rightarrow> Transaction result) \<Rightarrow> Payment \<Rightarrow> state \<Rightarrow> Transaction result" where
  "with_locked_payment fn payment s =
     (case select_for_update payment s of
        (Inl e, s1) \<Rightarrow> (Inl e, s1\<lparr>payments := payments s, ledger := ledger s\<rparr>)
      | (Inr row, s1) \<Rightarrow>
          (case fn row s1 of
             (Inl e, s') \<Rightarrow> (Inl e, s'\<lparr>payments := payments s, ledger := ledger s\<rparr>)
           | (Inr txn, s') \<Rightarrow> (Inr txn, s')))"

subsection \<open>Helpers of the orchestrators\<close>

text \<open>\<^verbatim>\<open>payment.transactions\<close>: the ledger rows of the payment, in creation order.\<close>

definition transactions :: "state \<Rightarrow> Payment \<Rightarrow> Transaction list" where
  "transactions s payment = filter (\<lambda>t. payment_id t = pid payment) (ledger s)"

text \<open>\<^verbatim>\<open>QuerySet.last()\<close>: the last row, \<^verbatim>\<open>None\<close> on an empty query set.\<close>

definition last_row :: "'a list \<Rightarrow> 'a option" where
  "last_row xs = (if xs = [] then None else Some (last xs))"

definition fetch_gateway_response ::
  "env \<Rightarrow> gateway_fn \<Rightarrow> (string \<Rightarrow> PaymentData \<Rightarrow> gw_outcome) \<Rightarrow> string \<Rightarrow> PaymentData
     \<Rightarrow> state \<Rightarrow> (GatewayResponse option \<times> string option) result" where
  "fetch_gateway_response ev tag fn gw payment_data s =
     (let s1 = s\<lparr>trace := trace s @ [GatewayCall tag gw payment_data]\<rparr> in
      case fn gw payment_data of
        Raises (GatewayError m) \<Rightarrow> (Inr (None, Some ERROR_MSG), s1)
      | Raises (PaymentError m) \<Rightarrow> (Inr (None, Some ERROR_MSG), s1)
      | Raises DoesNotExist \<Rightarrow> (Inl DoesNotExist, s1)
      | Raises (OtherError m) \<Rightarrow> (Inl (OtherError m), s1)
      | Returns response \<Rightarrow>
          (case validate_gateway_response ev response of
             Some m \<Rightarrow> (Inr (None, Some ERROR_MSG), s1)
           | None \<Rightarrow> (Inr (Some response, None), s1)))"

definition get_past_transaction_token ::
  "Payment \<Rightarrow> TransactionKind \<Rightarrow> state \<Rightarrow> exn + string" where
  "get_past_transaction_token payment k s =
     (case last_row (filter (\<lambda>t. kind t = k \<and> is_success t) (transactions s payment)) of
        None \<Rightarrow>
          Inl (PaymentError (''Cannot find successful '' @ kind_str k @ '' transaction.''))
      | Some txn \<Rightarrow> Inr (token txn))"

definition validate_refund_amount :: "Payment \<Rightarrow> rat \<Rightarrow> exn + unit" where
  "validate_refund_amount payment amount =
     (if amount \<le> 0 then Inl (PaymentError ''Amount should be a positive number.'')
      else if amount > captured_amount payment
      then Inl (PaymentError ''Cannot refund more than captured.'')
      else Inr ())"

text \<open>
  Modelled from the spec: \<^verbatim>\<open>Payment.get_charge_amount\<close> (saleor/payment/models.py),
  the remaining charge amount.
\<close>

definition get_charge_amount :: "Payment \<Rightarrow> rat" where
  "get_charge_amount payment = total payment - captured_amount payment"

text \<open>
  Modelled from the spec: \<^verbatim>\<open>create_payment_information\<close> (saleor/payment/utils.py)
  builds the payload sent to the gateway from its arguments.
\<close>

definition create_payment_information ::
  "Payment \<Rightarrow> string \<Rightarrow> rat option \<Rightarrow> bool \<Rightarrow> (string \<times> string) list option \<Rightarrow> PaymentData" where
  "create_payment_information payment payment_token amount store_source additional_data =
     \<lparr>pd_payment_id = pid payment, pd_gateway = gateway payment, pd_token = payment_token,
      pd_amount = amount, pd_store_source = store_source,
      pd_additional_data = additional_data\<rparr>"

text \<open>
  Modelled from the spec: \<^verbatim>\<open>update_payment_method_details\<close> (saleor/payment/utils.py)
  stores the payment-method metadata of the response on the payment.
\<close>

definition update_payment_method_details ::
  "Payment \<Rightarrow> GatewayResponse \<Rightarrow> state \<Rightarrow> Payment \<times> state" where
  "update_payment_method_details payment response s =
     (let payment' = payment\<lparr>method_details := payment_method_info response\<rparr>
      in (payment', s\<lparr>payments := (payments s)(pid payment \<mapsto> payment')\<rparr>))"

text \<open>
  \<^verbatim>\<open>if response and response.payment_method_info: update_payment_method_details(...)\<close>
\<close>

definition maybe_update_method ::
  "Payment \<Rightarrow> GatewayResponse option \<Rightarrow> state \<Rightarrow> Payment \<times> state" where
  "maybe_update_method payment response s =
     (case response of
        None \<Rightarrow> (payment, s)
      | Some r \<Rightarrow>
          (case payment_method_info r of
             None \<Rightarrow> (payment, s)
           | Some info \<Rightarrow> update_payment_method_details payment r s))"

text \<open>
  Modelled from the spec: the correlating token of an attempt, taken from the response's
  correlating identifier or the request payload's.
\<close>

definition correlating_token :: "PaymentData \<Rightarrow> GatewayResponse option \<Rightarrow> string" where
  "correlating_token payment_information response =
     (case response of
        Some r \<Rightarrow> transaction_id r
      | None \<Rightarrow> pd_token payment_information)"

text \<open>
  Modelled from the spec: \<^verbatim>\<open>create_transaction\<close> (saleor/payment/utils.py) inserts a new
  ledger row: success is (no error and the response indicates success), or the
  \<^verbatim>\<open>is_success\<close> argument on the synthetic path without a response; the action-required
  flag is copied from the response if present; the stored gateway response is the raw
  response or the error text.
\<close>

definition create_transaction ::
  "Payment \<Rightarrow> TransactionKind \<Rightarrow> PaymentData \<Rightarrow> bool \<Rightarrow> GatewayResponse option
     \<Rightarrow> string option \<Rightarrow> bool \<Rightarrow> state \<Rightarrow> Transaction \<times> state" where
  "create_transaction payment k payment_information act response error_msg success s =
     (let txn =
        \<lparr>txn_id = length (ledger s),
         payment_id = pid payment,
         kind = k,
         token = correlating_token payment_information response,
         is_success =
           (case response of
              Some r \<Rightarrow> error_msg = None \<and> gr_is_success r
            | None \<Rightarrow> success),
         action_required =
           (case response of Some r \<Rightarrow> gr_action_required r | None \<Rightarrow> act),
         gateway_response =
           (case response of
              Some r \<Rightarrow> raw_response r
            | None \<Rightarrow> (case error_msg of Some m \<Rightarrow> m | None \<Rightarrow> [])),
         error = (case response of Some r \<Rightarrow> gr_error r | None \<Rightarrow> error_msg)\<rparr>
      in (txn, s\<lparr>ledger := ledger s @ [txn]\<rparr>))"

text \<open>
  Modelled from the spec: the successful transactions of the payment with the given kind
  and correlating token.
\<close>

definition already_processed ::
  "state \<Rightarrow> Payment \<Rightarrow> TransactionKind \<Rightarrow> string \<Rightarrow> Transaction list" where
  "already_processed s payment k tok =
     filter (\<lambda>t. kind t = k \<and> token t = tok \<and> is_success t) (transactions s payment)"

text \<open>
  Modelled from the spec: \<^verbatim>\<open>get_already_processed_transaction_or_create_new_transaction\<close>
  (saleor/payment/utils.py), the idempotent commit of section 4.3: a successful
  transaction with the same kind and correlating token is returned unchanged; otherwise
  a new one is created.
\<close>

definition get_already_processed_transaction_or_create_new_transaction ::
  "Payment \<Rightarrow> TransactionKind \<Rightarrow> PaymentData \<Rightarrow> bool \<Rightarrow> string option
     \<Rightarrow> GatewayResponse option \<Rightarrow> state \<Rightarrow> Transaction \<times> state" where
  "get_already_processed_transaction_or_create_new_transaction
       payment k payment_information act error_msg response s =
     (case last_row
             (already_processed s payment k (correlating_token payment_information response)) of
        Some txn \<Rightarrow> (txn, s)
      | None \<Rightarrow> create_transaction payment k payment_information act response error_msg False s)"

text \<open>\<^verbatim>\<open>response is not None and response.action_required\<close>\<close>

definition response_action_required :: "GatewayResponse option \<Rightarrow> bool" where
  "response_action_required response =
     (case response of None \<Rightarrow> False | Some r \<Rightarrow> gr_action_required r)"

subsection \<open>The orchestrators\<close>

text \<open>
  Each orchestrator is its undecorated body, wrapped by the decorators in the order the
  source lists them (the decorator nearest to \<^verbatim>\<open>def\<close> is applied first).
\<close>

definition process_payment_body ::
  "env \<Rightarrow> string \<Rightarrow> bool \<Rightarrow> (string \<times> string) list option \<Rightarrow> PluginsManager option
     \<Rightarrow> Payment \<Rightarrow> state \<Rightarrow> Transaction result" where
  "process_payment_body ev tok store_source additional_data plugin_manager payment s =
     (let manager = (case plugin_manager of None \<Rightarrow> get_plugins_manager ev | Some m \<Rightarrow> m);
          payment_data =
            create_payment_information payment tok None store_source additional_data
      in case fetch_gateway_response ev ProcessPayment (pm_process_payment manager)
                (gateway payment) payment_data s of
           (Inl e, s1) \<Rightarrow> (Inl e, s1)
         | (Inr (response, err), s1) \<Rightarrow>
             (let act = response_action_required response;
                  (payment', s2) = maybe_update_method payment response s1;
                  (txn, s3) =
                    get_already_processed_transaction_or_create_new_transaction
                      payment' CAPTURE payment_data act err response s2
              in (Inr txn, s3)))"

definition process_payment ::
  "env \<Rightarrow> string \<Rightarrow> bool \<Rightarrow> (string \<times> string) list option \<Rightarrow> PluginsManager option
     \<Rightarrow> Payment \<Rightarrow> state \<Rightarrow> Transaction result" where
  "process_payment ev tok store_source additional_data plugin_manager =
     raise_payment_error
       (require_active_payment
         (with_locked_payment
           (payment_postprocess
             (process_payment_body ev tok store_source additional_data plugin_manager))))"

definition authorize_body ::
  "env \<Rightarrow> string \<Rightarrow> bool \<Rightarrow> Payment \<Rightarrow> state \<Rightarrow> Transaction result" where
  "authorize_body ev tok store_source payment s =
     (let manager = get_plugins_manager ev in
      case clean_authorize ev payment of
        Some m \<Rightarrow> (Inl (PaymentError m), s)
      | None \<Rightarrow>
          (let payment_data = create_payment_information payment tok None store_source None
           in case fetch_gateway_response ev AuthorizePayment (pm_authorize_payment manager)
                     (gateway payment) payment_data s of
                (Inl e, s1) \<Rightarrow> (Inl e, s1)
              | (Inr (response, err), s1) \<Rightarrow>
                  (let (payment', s2) = maybe_update_method payment response s1;
                       (txn, s3) =
                         get_already_processed_transaction_or_create_new_transaction
                           payment' AUTH payment_data False err response s2
                   in (Inr txn, s3))))"

definition authorize ::
  "env \<Rightarrow> string \<Rightarrow> bool \<Rightarrow> Payment \<Rightarrow> state \<Rightarrow> Transaction result" where
  "authorize ev tok store_source =
     raise_payment_error
       (require_active_payment
         (with_locked_payment
           (payment_postprocess (authorize_body ev tok store_source))))"

definition capture_body ::
  "env \<Rightarrow> rat option \<Rightarrow> bool \<Rightarrow> Payment \<Rightarrow> state \<Rightarrow> Transaction result" where
  "capture_body ev amount store_source payment s =
     (let manager = get_plugins_manager ev;
          amount' = (case amount of None \<Rightarrow> get_charge_amount payment | Some a \<Rightarrow> a)
      in case clean_capture ev payment amount' of
           Some m \<Rightarrow> (Inl (PaymentError m), s)
         | None \<Rightarrow>
             (case get_past_transaction_token payment AUTH s of
                Inl e \<Rightarrow> (Inl e, s)
              | Inr tok \<Rightarrow>
                  (let payment_data =
                         create_payment_information payment tok (Some amount') store_source None
                   in case fetch_gateway_response ev CapturePayment
                             (pm_capture_payment manager) (gateway payment) payment_data s of
                        (Inl e, s1) \<Rightarrow> (Inl e, s1)
                      | (Inr (response, err), s1) \<Rightarrow>
                          (let (payment', s2) = maybe_update_method payment response s1;
                               (txn, s3) =
                                 get_already_processed_transaction_or_create_new_transaction
                                   payment' CAPTURE payment_data False err response s2
                           in (Inr txn, s3)))))"

definition capture ::
  "env \<Rightarrow> rat option \<Rightarrow> bool \<Rightarrow> Payment \<Rightarrow> state \<Rightarrow> Transaction result" where
  "capture ev amount store_source =
     payment_postprocess
       (raise_payment_error
         (require_active_payment
           (with_locked_payment
             (payment_postprocess (capture_body ev amount store_source)))))"

definition refund_body ::
  "env \<Rightarrow> rat option \<Rightarrow> Payment \<Rightarrow> state \<Rightarrow> Transaction result" where
  "refund_body ev amount payment s =
     (let manager = get_plugins_manager ev;
          amount' = (case amount of None \<Rightarrow> captured_amount payment | Some a \<Rightarrow> a)
      in case validate_refund_amount payment amount' of
           Inl e \<Rightarrow> (Inl e, s)
         | Inr u \<Rightarrow>
             if \<not> can_refund ev payment
             then (Inl (PaymentError ''This payment cannot be refunded.''), s)
             else
               (let k = (if is_manual payment then EXTERNAL else CAPTURE) in
                case get_past_transaction_token payment k s of
                  Inl e \<Rightarrow> (Inl e, s)
                | Inr tok \<Rightarrow>
                    (let payment_data =
                           create_payment_information payment tok (Some amount') False None
                     in if is_manual payment
                        then (let (txn, s1) =
                                    create_transaction payment REFUND payment_data False None
                                      None True s
                              in (Inr txn, s1))
                        else
                          (case fetch_gateway_response ev RefundPayment
                                  (pm_refund_payment manager) (gateway payment) payment_data s of
                             (Inl e, s1) \<Rightarrow> (Inl e, s1)
                           | (Inr (response, err), s1) \<Rightarrow>
                               (let (txn, s2) =
                                      get_already_processed_transaction_or_create_new_transaction
                                        payment REFUND payment_data False err response s1
                                in (Inr txn, s2))))))"

definition refund ::
  "env \<Rightarrow> rat option \<Rightarrow> Payment \<Rightarrow> state \<Rightarrow> Transaction result" where
  "refund ev amount =
     raise_payment_error
       (require_active_payment
         (with_locked_payment (payment_postprocess (refund_body ev amount))))"

definition void_body :: "env \<Rightarrow> Payment \<Rightarrow> state \<Rightarrow> Transaction result" where
  "void_body ev payment s =
     (let manager = get_plugins_manager ev in
      case get_past_transaction_token payment AUTH s of
        Inl e \<Rightarrow> (Inl e, s)
      | Inr tok \<Rightarrow>
          (let payment_data = create_payment_information payment tok None False None
           in case fetch_gateway_response ev VoidPayment (pm_void_payment manager)
                     (gateway payment) payment_data s of
                (Inl e, s1) \<Rightarrow> (Inl e, s1)
              | (Inr (response, err), s1) \<Rightarrow>
                  (let (txn, s2) =
                         get_already_processed_transaction_or_create_new_transaction
                           payment VOID payment_data False err response s1
                   in (Inr txn, s2))))"

definition void :: "env \<Rightarrow> Payment \<Rightarrow> state \<Rightarrow> Transaction result" where
  "void ev =
     raise_payment_error
       (require_active_payment (with_locked_payment (payment_postprocess (void_body ev))))"

definition confirm_body ::
  "env \<Rightarrow> (string \<times> string) list option \<Rightarrow> Payment \<Rightarrow> state \<Rightarrow> Transaction result" where
  "confirm_body ev additional_data payment s =
     (let manager = get_plugins_manager ev;
          txn0 = last_row (filter (\<lambda>t. kind t = ACTION_TO_CONFIRM \<and> is_success t)
                            (transactions s payment));
          tok = (case txn0 of Some t \<Rightarrow> token t | None \<Rightarrow> []);
          payment_data = create_payment_information payment tok None False additional_data
      in case fetch_gateway_response ev ConfirmPayment (pm_confirm_payment manager)
                (gateway payment) payment_data s of
           (Inl e, s1) \<Rightarrow> (Inl e, s1)
         | (Inr (response, err), s1) \<Rightarrow>
             (let act = response_action_required response;
                  (payment', s2) = maybe_update_method payment response s1;
                  (txn, s3) =
                    get_already_processed_transaction_or_create_new_transaction
                      payment' CONFIRM payment_data act err response s2
              in (Inr txn, s3)))"

definition confirm ::
  "env \<Rightarrow> (string \<times> string) list option \<Rightarrow> Payment \<Rightarrow> state \<Rightarrow> Transaction result" where
  "confirm ev additional_data =
     raise_payment_error
       (require_active_payment
         (with_locked_payment (payment_postprocess (confirm_body ev additional_data))))"

text \<open>
  \<^verbatim>\<open>payment_refund_or_void\<close>: nothing for no payment; otherwise a refund if the payment
  can be refunded, else a void if it can be voided, else nothing. The transaction the
  orchestrator returns is dropped.
\<close>

definition payment_refund_or_void :: "env \<Rightarrow> Payment option \<Rightarrow> state \<Rightarrow> unit result" where
  "payment_refund_or_void ev payment s =
     (case payment of
        None \<Rightarrow> (Inr (), s)
      | Some p \<Rightarrow>
          if can_refund ev p
          then (case refund ev None p s of
                  (Inl e, s') \<Rightarrow> (Inl e, s')
                | (Inr txn, s') \<Rightarrow> (Inr (), s'))
          else if can_void ev p
          then (case void ev p s of
                  (Inl e, s') \<Rightarrow> (Inl e, s')
                | (Inr txn, s') \<Rightarrow> (Inr (), s'))
          else (Inr (), s))"

text \<open>
  A call of one of the six orchestrators with its arguments, to state a property of
  every orchestrator at once: \<open>run_body\<close> is the undecorated function, \<open>run\<close> the
  decorated one the callers see.
\<close>

datatype operation =
  Process string bool "(string \<times> string) list option" "PluginsManager option"
| Authorize string bool
| Capture "rat option" bool
| Refund "rat option"
| Void
| Confirm "(string \<times> string) list option"

fun run_body :: "env \<Rightarrow> operation \<Rightarrow> Payment \<Rightarrow> state \<Rightarrow> Transaction result" where
  "run_body ev (Process tok ss ad pm) = process_payment_body ev tok ss ad pm"
| "run_body ev (Authorize tok ss) = authorize_body ev tok ss"
| "run_body ev (Capture amount ss) = capture_body ev amount ss"
| "run_body ev (Refund amount) = refund_body ev amount"
| "run_body ev Void = void_body ev"
| "run_body ev (Confirm ad) = confirm_body ev ad"

fun run :: "env \<Rightarrow> operation \<Rightarrow> Payment \<Rightarrow> state \<Rightarrow> Transaction result" where
  "run ev (Process tok ss ad pm) = process_payment ev tok ss ad pm"
| "run ev (Authorize tok ss) = authorize ev tok ss"
| "run ev (Capture amount ss) = capture ev amount ss"
| "run ev (Refund amount) = refund ev amount"
| "run ev Void = void ev"
| "run ev (Confirm ad) = confirm ev ad"

text \<open>The gateway function of the plugin manager each orchestrator calls.\<close>

fun gateway_function :: "env \<Rightarrow> operation \<Rightarrow> string \<Rightarrow> PaymentData \<Rightarrow> gw_outcome" where
  "gateway_function ev (Process tok ss ad pm) =
     pm_process_payment (case pm of None \<Rightarrow> get_plugins_manager ev | Some m \<Rightarrow> m)"
| "gateway_function ev (Authorize tok ss) = pm_authorize_payment (get_plugins_manager ev)"
| "gateway_function ev (Capture amount ss) = pm_capture_payment (get_plugins_manager ev)"
| "gateway_function ev (Refund amount) = pm_refund_payment (get_plugins_manager ev)"
| "gateway_function ev Void = pm_void_payment (get_plugins_manager ev)"
| "gateway_function ev (Confirm ad) = pm_confirm_payment (get_plugins_manager ev)"

text \<open>The tag under which the trace records the call of that gateway function.\<close>

fun gateway_tag :: "operation \<Rightarrow> gateway_fn" where
  "gateway_tag (Process tok ss ad pm) = ProcessPayment"
| "gateway_tag (Authorize tok ss) = AuthorizePayment"
| "gateway_tag (Capture amount ss) = CapturePayment"
| "gateway_tag (Refund amount) = RefundPayment"
| "gateway_tag Void = VoidPayment"
| "gateway_tag (Confirm ad) = ConfirmPayment"

text \<open>The kind of transaction each orchestrator writes.\<close>

fun kind_written :: "operation \<Rightarrow> TransactionKind" where
  "kind_written (Process tok ss ad pm) = CAPTURE"
| "kind_written (Authorize tok ss) = AUTH"
| "kind_written (Capture amount ss) = CAPTURE"
| "kind_written (Refund amount) = REFUND"
| "kind_written Void = VOID"
| "kind_written (Confirm ad) = CONFIRM"

fun is_capture :: "operation \<Rightarrow> bool" where
  "is_capture (Capture amount ss) = True"
| "is_capture (Process tok ss ad pm) = False"
| "is_capture (Authorize tok ss) = False"
| "is_capture (Refund amount) = False"
| "is_capture Void = False"
| "is_capture (Confirm ad) = False"

fun is_refund :: "operation \<Rightarrow> bool" where
  "is_refund (Refund amount) = True"
| "is_refund (Process tok ss ad pm) = False"
| "is_refund (Authorize tok ss) = False"
| "is_refund (Capture amount ss) = False"
| "is_refund Void = False"
| "is_refund (Confirm ad) = False"

text \<open>
  The second half that the orchestrators share, written once to reason about all of them:
  the gateway call on a payload, the update of the payment-method details (all but
  \<open>refund\<close> and \<open>void\<close>), and the idempotent commit, with the action-required
  flag of the response passed on by \<open>process_payment\<close> and \<open>confirm\<close> only.
\<close>

fun updates_method :: "operation \<Rightarrow> bool" where
  "updates_method (Refund amount) = False"
| "updates_method Void = False"
| "updates_method (Process tok ss ad pm) = True"
| "updates_method (Authorize tok ss) = True"
| "updates_method (Capture amount ss) = True"
| "updates_method (Confirm ad) = True"

fun passes_action_required :: "operation \<Rightarrow> bool" where
  "passes_action_required (Process tok ss ad pm) = True"
| "passes_action_required (Confirm ad) = True"
| "passes_action_required (Authorize tok ss) = False"
| "passes_action_required (Capture amount ss) = False"
| "passes_action_required (Refund amount) = False"
| "passes_action_required Void = False"

definition call_and_commit ::
  "env \<Rightarrow> operation \<Rightarrow> Payment \<Rightarrow> PaymentData \<Rightarrow> state \<Rightarrow> Transaction result" where
  "call_and_commit ev op payment payment_data s =
     (case fetch_gateway_response ev (gateway_tag op) (gateway_function ev op)
             (gateway payment) payment_data s of
        (Inl e, s1) \<Rightarrow> (Inl e, s1)
      | (Inr (response, err), s1) \<Rightarrow>
          (let act = (if passes_action_required op then response_action_required response
                      else False);
               (payment', s2) =
                 (if updates_method op then maybe_update_method payment response s1
                  else (payment, s1));
               (txn, s3) =
                 get_already_processed_transaction_or_create_new_transaction
                   payment' (kind_written op) payment_data act err response s2
           in (Inr txn, s3)))"

subsection \<open>Reading the trace\<close>

text \<open>The runs of the post-processing hook and the gateway calls of a trace, in order.\<close>

fun hook_run :: "event \<Rightarrow> (Transaction \<times> nat) list" where
  "hook_run (Postprocess txn p) = [(txn, p)]"
| "hook_run (SelectForUpdate p) = []"
| "hook_run (GatewayCall tag gw payment_data) = []"

definition hook_runs :: "state \<Rightarrow> (Transaction \<times> nat) list" where
  "hook_runs s = concat (map hook_run (trace s))"

fun gateway_call :: "event \<Rightarrow> (gateway_fn \<times> string \<times> PaymentData) list" where
  "gateway_call (GatewayCall tag gw payment_data) = [(tag, gw, payment_data)]"
| "gateway_call (SelectForUpdate p) = []"
| "gateway_call (Postprocess txn p) = []"

definition gateway_calls :: "state \<Rightarrow> (gateway_fn \<times> string \<times> PaymentData) list" where
  "gateway_calls s = concat (map gateway_call (trace s))"

subsection \<open>Concrete gateways, payments and states\<close>

text \<open>A gateway that approves, one that declines and one that raises.\<close>

definition gw_ok :: "string \<Rightarrow> PaymentData \<Rightarrow> gw_outcome" where
  "gw_ok gw payment_data =
     Returns \<lparr>gr_is_success = True, transaction_id = ''T1'', gr_action_required = False,
              gr_error = None, payment_method_info = None, raw_response = ''{}''\<rparr>"

definition gw_declined :: "string \<Rightarrow> PaymentData \<Rightarrow> gw_outcome" where
  "gw_declined gw payment_data =
     Returns \<lparr>gr_is_success = False, transaction_id = ''T2'', gr_action_required = False,
              gr_error = Some ''Card declined'', payment_method_info = None,
              raw_response = ''{}''\<rparr>"

definition gw_raises :: "string \<Rightarrow> PaymentData \<Rightarrow> gw_outcome" where
  "gw_raises gw payment_data = Raises (GatewayError ''connection reset by 10.0.0.7'')"

definition manager_of :: "(string \<Rightarrow> PaymentData \<Rightarrow> gw_outcome) \<Rightarrow> PluginsManager" where
  "manager_of fn =
     \<lparr>pm_process_payment = fn, pm_authorize_payment = fn, pm_capture_payment = fn,
      pm_refund_payment = fn, pm_void_payment = fn, pm_confirm_payment = fn\<rparr>"

text \<open>Collaborators that accept every response and every payment.\<close>

definition env_of :: "(string \<Rightarrow> PaymentData \<Rightarrow> gw_outcome) \<Rightarrow> env" where
  "env_of fn =
     \<lparr>get_plugins_manager = manager_of fn,
      validate_gateway_response = (\<lambda>r. None),
      clean_authorize = (\<lambda>p. None),
      clean_capture = (\<lambda>p a. None),
      can_refund = (\<lambda>p. True),
      can_void = (\<lambda>p. True)\<rparr>"

definition payment1 :: Payment where
  "payment1 =
     \<lparr>pid = 1, gateway = ''dummy'', is_active = True, captured_amount = 50, total = 100,
      is_manual = False, method_details = None\<rparr>"

definition payment1_inactive :: Payment where
  "payment1_inactive = payment1\<lparr>is_active := False\<rparr>"

definition payment2_manual :: Payment where
  "payment2_manual =
     \<lparr>pid = 2, gateway = ''manual'', is_active = True, captured_amount = 30, total = 30,
      is_manual = True, method_details = None\<rparr>"

definition payment3_uncaptured :: Payment where
  "payment3_uncaptured =
     \<lparr>pid = 3, gateway = ''dummy'', is_active = True, captured_amount = 0, total = 80,
      is_manual = False, method_details = None\<rparr>"

definition auth1 :: Transaction where
  "auth1 =
     \<lparr>txn_id = 0, payment_id = 1, kind = AUTH, token = ''A1'', is_success = True,
      action_required = False, gateway_response = ''{}'', error = None\<rparr>"

definition external2 :: Transaction where
  "external2 =
     \<lparr>txn_id = 0, payment_id = 2, kind = EXTERNAL, token = ''M1'', is_success = True,
      action_required = False, gateway_response = ''{}'', error = None\<rparr>"

definition refund2 :: Transaction where
  "refund2 =
     \<lparr>txn_id = 1, payment_id = 2, kind = REFUND, token = ''M1'', is_success = True,
      action_required = False, gateway_response = [], error = None\<rparr>"

text \<open>What the declining and the approving gateway make of a capture of payment 1.\<close>

definition declined1 :: Transaction where
  "declined1 =
     \<lparr>txn_id = 1, payment_id = 1, kind = CAPTURE, token = ''T2'', is_success = False,
      action_required = False, gateway_response = ''{}'', error = Some ''Card declined''\<rparr>"

definition capture1 :: Transaction where
  "capture1 =
     \<lparr>txn_id = 1, payment_id = 1, kind = CAPTURE, token = ''T1'', is_success = True,
      action_required = False, gateway_response = ''{}'', error = None\<rparr>"

definition payload1 :: PaymentData where
  "payload1 = create_payment_information payment1 ''A1'' None False None"

text \<open>Payment 1 with a successful authorization.\<close>

definition state1 :: state where
  "state1 = \<lparr>payments = [1 \<mapsto> payment1], ledger = [auth1], trace = []\<rparr>"

text \<open>Payment 1 after a successful capture.\<close>

definition state1_captured :: state where
  "state1_captured = \<lparr>payments = [1 \<mapsto> payment1], ledger = [auth1, capture1], trace = []\<rparr>"

text \<open>Payment 1 with an empty ledger.\<close>

definition state1_fresh :: state where
  "state1_fresh = \<lparr>payments = [1 \<mapsto> payment1], ledger = [], trace = []\<rparr>"

text \<open>Payment 1 deactivated in the database after the caller read it.\<close>

definition state1_deactivated :: state where
  "state1_deactivated =
     \<lparr>payments = [1 \<mapsto> payment1_inactive], ledger = [auth1], trace = []\<rparr>"

text \<open>The manual payment 2, already refunded once.\<close>

definition state2 :: state where
  "state2 = \<lparr>payments = [2 \<mapsto> payment2_manual], ledger = [external2, refund2], trace = []\<rparr>"

definition state3 :: state where
  "state3 = \<lparr>payments = [3 \<mapsto> payment3_uncaptured], ledger = [], trace = []\<rparr>"

text \<open>What the approving gateway makes of a void of payment 1.\<close>

definition void1 :: Transaction where
  "void1 =
     \<lparr>txn_id = 1, payment_id = 1, kind = VOID, token = ''T1'', is_success = True,
      action_required = False, gateway_response = ''{}'', error = None\<rparr>"

text \<open>The row a second refund of the manual payment 2 inserts.\<close>

definition refund2_again :: Transaction where
  "refund2_again =
     \<lparr>txn_id = 2, payment_id = 2, kind = REFUND, token = ''M1'', is_success = True,
      action_required = False, gateway_response = [], error = None\<rparr>"

text \<open>The manual payment 2 before any refund.\<close>

definition state2_external :: state where
  "state2_external = \<lparr>payments = [2 \<mapsto> payment2_manual], ledger = [external2], trace = []\<rparr>"

text \<open>Collaborators whose \<^verbatim>\<open>clean_capture\<close> rejects every amount.\<close>

definition env_rejecting :: env where
  "env_rejecting = (env_of gw_ok)\<lparr>clean_capture := (\<lambda>p a. Some ''Cannot charge this amount.'')\<rparr>"

text \<open>A database without the row of payment 1.\<close>

definition state_no_row :: state where
  "state_no_row = \<lparr>payments = Map.empty, ledger = [], trace = []\<rparr>"

text \<open>A successful authorization of another payment, and ledgers that hold it.\<close>

definition auth9 :: Transaction where
  "auth9 =
     \<lparr>txn_id = 1, payment_id = 9, kind = AUTH, token = ''B9'', is_success = True,
      action_required = False, gateway_response = ''{}'', error = None\<rparr>"

definition state1_shared :: state where
  "state1_shared = \<lparr>payments = [1 \<mapsto> payment1], ledger = [auth1, auth9], trace = []\<rparr>"

definition state1_other_auth :: state where
  "state1_other_auth = \<lparr>payments = [1 \<mapsto> payment1], ledger = [auth9], trace = []\<rparr>"

text \<open>Payment 1 authorized and then voided, the void carrying the token of the payload.\<close>

definition void_a1 :: Transaction where
  "void_a1 =
     \<lparr>txn_id = 1, payment_id = 1, kind = VOID, token = ''A1'', is_success = True,
      action_required = False, gateway_response = ''{}'', error = None\<rparr>"

definition state1_voided :: state where
  "state1_voided = \<lparr>payments = [1 \<mapsto> payment1], ledger = [auth1, void_a1], trace = []\<rparr>"

text \<open>Payment 1 after its authorization has been captured once by the approving gateway.\<close>

definition payload_capture1 :: PaymentData where
  "payload_capture1 = create_payment_information payment1 ''A1'' (Some 50) False None"

definition state1_after_capture :: state where
  "state1_after_capture =
     \<lparr>payments = [1 \<mapsto> payment1], ledger = [auth1, capture1],
      trace = [SelectForUpdate 1, GatewayCall CapturePayment ''dummy'' payload_capture1,
               Postprocess capture1 1, Postprocess capture1 1]\<rparr>"

section \<open>Properties\<close>

lemmas decorator_defs =
  raise_payment_error_def require_active_payment_def with_locked_payment_def
  select_for_update_def payment_postprocess_def gateway_postprocess_def

lemmas orchestrator_defs =
  process_payment_def authorize_def capture_def refund_def void_def confirm_def

lemmas example_defs =
  gw_ok_def gw_declined_def gw_raises_def manager_of_def env_of_def payment1_def
  payment1_inactive_def payment2_manual_def payment3_uncaptured_def auth1_def external2_def
  refund2_def declined1_def capture1_def payload1_def state1_def state1_captured_def
  state1_fresh_def state1_deactivated_def state2_def state3_def void1_def refund2_again_def
  state2_external_def env_rejecting_def state_no_row_def auth9_def state1_shared_def
  state1_other_auth_def void_a1_def state1_voided_def payload_capture1_def
  state1_after_capture_def

lemmas helper_defs =
  fetch_gateway_response_def get_past_transaction_token_def validate_refund_amount_def
  get_charge_amount_def create_payment_information_def update_payment_method_details_def
  maybe_update_method_def correlating_token_def create_transaction_def already_processed_def
  get_already_processed_transaction_or_create_new_transaction_def
  response_action_required_def transactions_def last_row_def select_for_update_def
  gateway_postprocess_def hook_runs_def gateway_calls_def ERROR_MSG_def
  error_or_generic_def GENERIC_TRANSACTION_ERROR_def

subsection \<open>What the helpers and the bodies change\<close>

lemma fetch_state:
  "fetch_gateway_response ev tag fn gw pd s = (r, s1) \<Longrightarrow>
   s1 = s\<lparr>trace := trace s @ [GatewayCall tag gw pd]\<rparr>"
  by (auto simp: fetch_gateway_response_def Let_def
      split: gw_outcome.splits exn.splits option.splits)

lemma maybe_update_frame:
  "maybe_update_method p resp s = (p', s') \<Longrightarrow>
   trace s' = trace s \<and> ledger s' = ledger s \<and> pid p' = pid p \<and> is_manual p' = is_manual p"
  by (auto simp: maybe_update_method_def update_payment_method_details_def Let_def
      split: option.splits)

lemma create_frame:
  "create_transaction p k pd act resp err succ s = (t, s') \<Longrightarrow>
   trace s' = trace s \<and> payments s' = payments s \<and> ledger s' = ledger s @ [t] \<and>
   payment_id t = pid p \<and> kind t = k \<and> token t = correlating_token pd resp \<and>
   (resp = None \<longrightarrow> is_success t = succ)"
  by (auto simp: create_transaction_def Let_def)

lemma last_row_Some: "last_row xs = Some x \<Longrightarrow> x \<in> set xs"
  by (auto simp: last_row_def split: if_splits)

lemma last_row_None: "last_row xs = None \<Longrightarrow> xs = []"
  by (auto simp: last_row_def split: if_splits)

lemma commit_frame:
  "get_already_processed_transaction_or_create_new_transaction p k pd act err resp s = (t, s')
   \<Longrightarrow> trace s' = trace s \<and> payment_id t = pid p \<and> kind t = k \<and>
       ((ledger s' = ledger s \<and> t \<in> set (ledger s) \<and> is_success t) \<or>
        (ledger s' = ledger s @ [t] \<and>
         \<not> (\<exists>u \<in> set (ledger s). payment_id u = payment_id t \<and> kind u = kind t \<and>
               token u = token t \<and> is_success u)))"
  apply (simp add: get_already_processed_transaction_or_create_new_transaction_def
      split: option.splits)
   apply (frule create_frame)
   apply (drule last_row_None)
   apply (auto simp: already_processed_def transactions_def filter_empty_conv)[1]
  apply (drule last_row_Some)
  apply (auto simp: already_processed_def transactions_def)
  done


lemmas body_defs =
  process_payment_body_def authorize_body_def capture_body_def refund_body_def
  void_body_def confirm_body_def

lemma hook_runs_append [simp]:
  "hook_runs (s\<lparr>trace := trace s @ evs\<rparr>) = hook_runs s @ concat (map hook_run evs)"
  by (simp add: hook_runs_def)

lemma body_trace:
  "run_body ev op row s = (r, s') \<Longrightarrow>
   \<exists>evs. trace s' = trace s @ evs \<and> concat (map hook_run evs) = []"
  by (cases op)
    (auto simp: body_defs Let_def
      split: option.splits sum.splits prod.splits if_splits
      dest!: fetch_state maybe_update_frame commit_frame create_frame)

lemma body_ledger:
  "run_body ev op row s = (r, s') \<Longrightarrow> \<not> (is_refund op \<and> is_manual row) \<Longrightarrow>
   (ledger s' = ledger s \<and>
      (\<forall>t. r = Inr t \<longrightarrow> t \<in> set (ledger s) \<and> kind t = kind_written op \<and> is_success t)) \<or>
   (\<exists>t. r = Inr t \<and> ledger s' = ledger s @ [t] \<and> kind t = kind_written op \<and>
        payment_id t = pid row \<and>
        \<not> (\<exists>u \<in> set (ledger s). payment_id u = payment_id t \<and> kind u = kind t \<and>
              token u = token t \<and> is_success u))"
  by (cases op)
    (auto simp: body_defs Let_def
      split: option.splits sum.splits prod.splits if_splits
      dest!: fetch_state maybe_update_frame commit_frame)


lemmas wrapper_defs =
  orchestrator_defs raise_payment_error_def require_active_payment_def
  with_locked_payment_def payment_postprocess_def

lemmas eval_defs = example_defs wrapper_defs body_defs helper_defs Let_def

lemma run_returns:
  "is_active p \<Longrightarrow> select_for_update p s = (Inr row, s1) \<Longrightarrow>
   run_body ev op row s1 = (Inr t, s2) \<Longrightarrow> \<not> is_capture op \<Longrightarrow>
   run ev op p s =
     (if is_success t then Inr t else Inl (PaymentError (error_or_generic t)),
      gateway_postprocess t (payment_id t) s2)"
  by (cases op) (simp_all add: wrapper_defs)

lemma run_returns_capture:
  "is_active p \<Longrightarrow> select_for_update p s = (Inr row, s1) \<Longrightarrow>
   run_body ev (Capture a ss) row s1 = (Inr t, s2) \<Longrightarrow>
   run ev (Capture a ss) p s =
     (if is_success t
      then (Inr t, gateway_postprocess t (payment_id t) (gateway_postprocess t (payment_id t) s2))
      else (Inl (PaymentError (error_or_generic t)), gateway_postprocess t (payment_id t) s2))"
  by (simp add: wrapper_defs)

lemma run_raises:
  "is_active p \<Longrightarrow> select_for_update p s = (Inr row, s1) \<Longrightarrow>
   run_body ev op row s1 = (Inl e, s2) \<Longrightarrow>
   run ev op p s = (Inl e, s2\<lparr>payments := payments s, ledger := ledger s\<rparr>)"
  by (cases op) (simp_all add: wrapper_defs)

lemma run_no_row:
  "is_active p \<Longrightarrow> select_for_update p s = (Inl e, s1) \<Longrightarrow>
   run ev op p s = (Inl e, s1\<lparr>payments := payments s, ledger := ledger s\<rparr>)"
  by (cases op) (simp_all add: wrapper_defs)

lemma run_inactive:
  "\<not> is_active p \<Longrightarrow>
   run ev op p s = (Inl (PaymentError ''This payment is no longer active.''), s)"
  by (cases op) (simp_all add: wrapper_defs)

lemma select_for_update_state:
  "select_for_update p s = (r, s1) \<Longrightarrow>
   s1 = s\<lparr>trace := trace s @ [SelectForUpdate (pid p)]\<rparr> \<and>
   (case r of Inl e \<Rightarrow> e = DoesNotExist \<and> payments s (pid p) = None
            | Inr row \<Rightarrow> payments s (pid p) = Some row)"
  by (auto simp: select_for_update_def Let_def split: option.splits)

lemma body_hook_runs:
  "run_body ev op row s = (r, s') \<Longrightarrow> hook_runs s' = hook_runs s"
  by (drule body_trace) (auto simp: hook_runs_def)

lemma select_hook_runs:
  "select_for_update p s = (r, s1) \<Longrightarrow> hook_runs s1 = hook_runs s"
  by (drule select_for_update_state) (auto simp: hook_runs_def)

lemma hook_runs_rollback [simp]:
  "hook_runs (s\<lparr>payments := ps, ledger := l\<rparr>) = hook_runs s"
  by (simp add: hook_runs_def)

lemma hook_runs_postprocess [simp]:
  "hook_runs (gateway_postprocess t q s) = hook_runs s @ [(t, q)]"
  by (simp add: gateway_postprocess_def)

lemma gateway_calls_append [simp]:
  "gateway_calls (s\<lparr>trace := trace s @ evs\<rparr>) = gateway_calls s @ concat (map gateway_call evs)"
  by (simp add: gateway_calls_def)

lemma gateway_calls_rollback [simp]:
  "gateway_calls (s\<lparr>payments := ps, ledger := l\<rparr>) = gateway_calls s"
  by (simp add: gateway_calls_def)

lemma gateway_calls_postprocess [simp]:
  "gateway_calls (gateway_postprocess t q s) = gateway_calls s"
  by (simp add: gateway_postprocess_def)

lemma select_gateway_calls:
  "select_for_update p s = (r, s1) \<Longrightarrow> gateway_calls s1 = gateway_calls s"
  by (drule select_for_update_state) (auto simp: gateway_calls_def)

lemma select_ledger:
  "select_for_update p s = (r, s1) \<Longrightarrow> ledger s1 = ledger s \<and> payments s1 = payments s"
  by (drule select_for_update_state) auto

lemma run_gateway_calls:
  assumes "is_active p" and "select_for_update p s = (Inr row, s1)"
  shows "gateway_calls (snd (run ev op p s)) = gateway_calls (snd (run_body ev op row s1))"
proof -
  obtain b s2 where body: "run_body ev op row s1 = (b, s2)" by (cases "run_body ev op row s1")
  show ?thesis
  proof (cases b)
    case (Inl e)
    with assms body show ?thesis using run_raises [of p s row s1 ev op e s2] by simp
  next
    case (Inr t)
    show ?thesis
    proof (cases "is_capture op")
      case True
      then obtain a ss where "op = Capture a ss" by (cases op) auto
      with assms body Inr show ?thesis
        using run_returns_capture [of p s row s1 ev a ss t s2] by simp
    next
      case False
      with assms body Inr show ?thesis
        using run_returns [of p s row s1 ev op t s2] by simp
    qed
  qed
qed

lemma run_trace_prefix:
  assumes "is_active p"
  shows "\<exists>evs. trace (snd (run ev op p s)) = trace s @ SelectForUpdate (pid p) # evs"
proof -
  obtain r s1 where sel: "select_for_update p s = (r, s1)" by (cases "select_for_update p s")
  then have s1: "trace s1 = trace s @ [SelectForUpdate (pid p)]"
    by (auto dest: select_for_update_state)
  show ?thesis
  proof (cases r)
    case (Inl e)
    with assms sel s1 show ?thesis using run_no_row [of p s e s1 ev op] by simp
  next
    case (Inr row)
    obtain b s2 where body: "run_body ev op row s1 = (b, s2)" by (cases "run_body ev op row s1")
    then obtain evs where evs: "trace s2 = trace s1 @ evs"
      using body_trace by blast
    show ?thesis
    proof (cases b)
      case (Inl e)
      with assms sel \<open>r = Inr row\<close> body s1 evs show ?thesis
        using run_raises [of p s row s1 ev op e s2] by simp
    next
      case (Inr t)
      show ?thesis
      proof (cases "is_capture op")
        case True
        then obtain a ss where "op = Capture a ss" by (cases op) auto
        with assms sel \<open>r = Inr row\<close> body Inr s1 evs show ?thesis
          using run_returns_capture [of p s row s1 ev a ss t s2]
          by (simp add: gateway_postprocess_def)
      next
        case False
        with assms sel \<open>r = Inr row\<close> body Inr s1 evs show ?thesis
          using run_returns [of p s row s1 ev op t s2]
          by (simp add: gateway_postprocess_def)
      qed
    qed
  qed
qed

lemma run_outcome:
  assumes "is_active p" and "select_for_update p s = (Inr row, s1)"
  shows "fst (run ev op p s) =
           (case fst (run_body ev op row s1) of
              Inl e \<Rightarrow> Inl e
            | Inr t \<Rightarrow> if is_success t then Inr t else Inl (PaymentError (error_or_generic t)))"
proof -
  obtain b s2 where body: "run_body ev op row s1 = (b, s2)" by (cases "run_body ev op row s1")
  show ?thesis
  proof (cases b)
    case (Inl e)
    with assms body show ?thesis using run_raises [of p s row s1 ev op e s2] by simp
  next
    case (Inr t)
    show ?thesis
    proof (cases "is_capture op")
      case True
      then obtain a ss where "op = Capture a ss" by (cases op) auto
      with assms body Inr show ?thesis
        using run_returns_capture [of p s row s1 ev a ss t s2] by simp
    next
      case False
      with assms body Inr show ?thesis
        using run_returns [of p s row s1 ev op t s2] by simp
    qed
  qed
qed

lemma transactions_select:
  "select_for_update p s = (r, s1) \<Longrightarrow> transactions s1 q = transactions s q"
  by (drule select_ledger) (simp add: transactions_def)

lemma refund_body_manual:
  assumes "is_manual row"
    and "validate_refund_amount row (case amount of None \<Rightarrow> captured_amount row | Some a \<Rightarrow> a)
           = Inr ()"
    and "can_refund ev row"
    and "filter (\<lambda>t. kind t = EXTERNAL \<and> is_success t) (transactions s row) \<noteq> []"
  shows "\<exists>t. refund_body ev amount row s = (Inr t, s\<lparr>ledger := ledger s @ [t]\<rparr>) \<and>
             kind t = REFUND \<and> is_success t \<and> payment_id t = pid row"
  using assms
  by (simp add: refund_body_def get_past_transaction_token_def last_row_def Let_def
      create_transaction_def)

lemma run_ledger:
  assumes "\<not> (is_refund op \<and> (\<exists>row. payments s (pid p) = Some row \<and> is_manual row))"
  shows "(ledger (snd (run ev op p s)) = ledger s \<and>
            (\<forall>t. fst (run ev op p s) = Inr t \<longrightarrow>
                 t \<in> set (ledger s) \<and> kind t = kind_written op \<and> is_success t)) \<or>
         (\<exists>t. ledger (snd (run ev op p s)) = ledger s @ [t] \<and> kind t = kind_written op \<and>
              \<not> (\<exists>u \<in> set (ledger s). payment_id u = payment_id t \<and> kind u = kind t \<and>
                    token u = token t \<and> is_success u))"
proof (cases "is_active p")
  case False
  then show ?thesis by (simp add: run_inactive)
next
  case True
  obtain r s1 where sel: "select_for_update p s = (r, s1)" by (cases "select_for_update p s")
  have l: "ledger s1 = ledger s"
    using select_ledger [OF sel] by simp
  show ?thesis
  proof (cases r)
    case (Inl e)
    with True sel show ?thesis using run_no_row [of p s e s1 ev op] by simp
  next
    case (Inr row)
    then have "payments s (pid p) = Some row"
      using select_for_update_state [OF sel] by simp
    with assms have nm: "\<not> (is_refund op \<and> is_manual row)" by simp
    obtain b s2 where body: "run_body ev op row s1 = (b, s2)" by (cases "run_body ev op row s1")
    note bl = body_ledger [OF body nm]
    show ?thesis
    proof (cases b)
      case (Inl e)
      with True sel \<open>r = Inr row\<close> body show ?thesis
        using run_raises [of p s row s1 ev op e s2] by simp
    next
      case (Inr t)
      have pp: "ledger (gateway_postprocess t (payment_id t) s2) = ledger s2"
        "ledger (gateway_postprocess t (payment_id t) (gateway_postprocess t (payment_id t) s2))
           = ledger s2"
        by (simp_all add: gateway_postprocess_def)
      show ?thesis
      proof (cases "is_capture op")
        case True
        then obtain a ss where "op = Capture a ss" by (cases op) auto
        then have "run ev op p s =
          (if is_success t
           then (Inr t, gateway_postprocess t (payment_id t)
                          (gateway_postprocess t (payment_id t) s2))
           else (Inl (PaymentError (error_or_generic t)),
                 gateway_postprocess t (payment_id t) s2))"
          using \<open>is_active p\<close> sel \<open>r = Inr row\<close> body Inr
            run_returns_capture [of p s row s1 ev a ss t s2] by simp
        with bl Inr l pp show ?thesis by (auto split: if_splits)
      next
        case False
        then have "run ev op p s =
          (if is_success t then Inr t else Inl (PaymentError (error_or_generic t)),
           gateway_postprocess t (payment_id t) s2)"
          using \<open>is_active p\<close> sel \<open>r = Inr row\<close> body Inr
            run_returns [of p s row s1 ev op t s2] by simp
        with bl Inr l pp show ?thesis by (auto split: if_splits)
      qed
    qed
  qed
qed

lemma filter_transactions:
  "filter Q (transactions s row) = filter (\<lambda>t. payment_id t = pid row \<and> Q t) (ledger s)"
  by (simp add: transactions_def)

lemma capture_body_rejected:
  assumes "clean_capture ev row (case amount of None \<Rightarrow> get_charge_amount row | Some a \<Rightarrow> a)
             = Some m"
  shows "capture_body ev amount ss row s = (Inl (PaymentError m), s)"
  using assms by (simp add: capture_body_def Let_def)

lemma capture_body_no_auth:
  assumes "clean_capture ev row (case amount of None \<Rightarrow> get_charge_amount row | Some a \<Rightarrow> a)
             = None"
    and "\<forall>t \<in> set (ledger s). \<not> (payment_id t = pid row \<and> kind t = AUTH \<and> is_success t)"
  shows "capture_body ev amount ss row s =
           (Inl (PaymentError ''Cannot find successful AUTH transaction.''), s)"
proof -
  have "last_row (filter (\<lambda>t. kind t = AUTH \<and> is_success t) (transactions s row)) = None"
    using assms(2) by (simp add: filter_transactions last_row_def filter_empty_conv)
  then show ?thesis
    using assms(1) by (simp add: capture_body_def get_past_transaction_token_def Let_def)
qed

lemma capture_body_with_auth:
  assumes "clean_capture ev row (case amount of None \<Rightarrow> get_charge_amount row | Some a \<Rightarrow> a)
             = None"
    and "ledger s = before @ a # after"
    and "payment_id a = pid row \<and> kind a = AUTH \<and> is_success a"
    and "\<forall>t \<in> set after. \<not> (payment_id t = pid row \<and> kind t = AUTH \<and> is_success t)"
  shows "gateway_calls (snd (capture_body ev amount ss row s)) =
           gateway_calls s @
           [(CapturePayment, gateway row,
             create_payment_information row (token a)
               (Some (case amount of None \<Rightarrow> get_charge_amount row | Some a \<Rightarrow> a)) ss None)]"
proof -
  have "last_row (filter (\<lambda>t. kind t = AUTH \<and> is_success t) (transactions s row)) = Some a"
    using assms(2,3,4) by (simp add: filter_transactions last_row_def filter_empty_conv)
  then show ?thesis
    using assms(1)
    by (auto simp: capture_body_def get_past_transaction_token_def Let_def gateway_calls_def
        split: option.splits sum.splits prod.splits
        dest!: fetch_state maybe_update_frame commit_frame)
qed

lemma body_shape:
  assumes "\<not> (is_refund op \<and> is_manual row)"
  shows "(\<exists>e. run_body ev op row s = (Inl e, s)) \<or>
         (\<exists>pd0. run_body ev op row s = call_and_commit ev op row pd0 s)"
proof (cases op)
  case (Process tok ss ad pm)
  have "run_body ev op row s =
          call_and_commit ev op row (create_payment_information row tok None ss ad) s"
    unfolding Process
    by (simp add: process_payment_body_def call_and_commit_def Let_def
        split: prod.splits sum.splits)
  then show ?thesis by blast
next
  case (Authorize tok ss)
  show ?thesis
  proof (cases "clean_authorize ev row")
    case (Some m)
    then have "run_body ev op row s = (Inl (PaymentError m), s)"
      unfolding Authorize by (simp add: authorize_body_def)
    then show ?thesis by blast
  next
    case None
    then have "run_body ev op row s =
          call_and_commit ev op row (create_payment_information row tok None ss None) s"
      unfolding Authorize
      by (simp add: authorize_body_def call_and_commit_def Let_def
          split: prod.splits sum.splits)
    then show ?thesis by blast
  qed
next
  case (Capture amount ss)
  let ?amt = "case amount of None \<Rightarrow> get_charge_amount row | Some a \<Rightarrow> a"
  show ?thesis
  proof (cases "clean_capture ev row ?amt")
    case (Some m)
    then have "run_body ev op row s = (Inl (PaymentError m), s)"
      unfolding Capture by (simp add: capture_body_def Let_def)
    then show ?thesis by blast
  next
    case None
    show ?thesis
    proof (cases "get_past_transaction_token row AUTH s")
      case (Inl e)
      with None have "run_body ev op row s = (Inl e, s)"
        unfolding Capture by (simp add: capture_body_def Let_def)
      then show ?thesis by blast
    next
      case (Inr tok)
      with None have "run_body ev op row s =
          call_and_commit ev op row (create_payment_information row tok (Some ?amt) ss None) s"
        unfolding Capture
        by (simp add: capture_body_def call_and_commit_def Let_def
            split: prod.splits sum.splits)
      then show ?thesis by blast
    qed
  qed
next
  case (Refund amount)
  let ?amt = "case amount of None \<Rightarrow> captured_amount row | Some a \<Rightarrow> a"
  from assms Refund have nm: "\<not> is_manual row" by simp
  show ?thesis
  proof (cases "validate_refund_amount row ?amt")
    case (Inl e)
    then have "run_body ev op row s = (Inl e, s)"
      unfolding Refund by (simp add: refund_body_def Let_def)
    then show ?thesis by blast
  next
    case (Inr u)
    show ?thesis
    proof (cases "can_refund ev row")
      case False
      with Inr have "run_body ev op row s =
          (Inl (PaymentError ''This payment cannot be refunded.''), s)"
        unfolding Refund by (simp add: refund_body_def Let_def)
      then show ?thesis by blast
    next
      case True
      show ?thesis
      proof (cases "get_past_transaction_token row CAPTURE s")
        case (Inl e)
        with Inr True nm have "run_body ev op row s = (Inl e, s)"
          unfolding Refund by (simp add: refund_body_def Let_def)
        then show ?thesis by blast
      next
        case tk: (Inr tok)
        with Inr True nm have "run_body ev op row s =
          call_and_commit ev op row (create_payment_information row tok (Some ?amt) False None) s"
          unfolding Refund
          by (simp add: refund_body_def call_and_commit_def Let_def
              split: prod.splits sum.splits)
        then show ?thesis by blast
      qed
    qed
  qed
next
  case Void
  show ?thesis
  proof (cases "get_past_transaction_token row AUTH s")
    case (Inl e)
    then have "run_body ev op row s = (Inl e, s)"
      unfolding Void by (simp add: void_body_def)
    then show ?thesis by blast
  next
    case (Inr tok)
    then have "run_body ev op row s =
          call_and_commit ev op row (create_payment_information row tok None False None) s"
      unfolding Void
      by (simp add: void_body_def call_and_commit_def Let_def split: prod.splits sum.splits)
    then show ?thesis by blast
  qed
next
  case (Confirm ad)
  have "run_body ev op row s =
          call_and_commit ev op row
            (create_payment_information row
               (case last_row (filter (\<lambda>t. kind t = ACTION_TO_CONFIRM \<and> is_success t)
                                 (transactions s row)) of
                  Some t \<Rightarrow> token t | None \<Rightarrow> [])
               None False ad) s"
    unfolding Confirm
    by (simp add: confirm_body_def call_and_commit_def Let_def split: prod.splits sum.splits)
  then show ?thesis by blast
qed

lemma call_and_commit_calls:
  "gateway_calls (snd (call_and_commit ev op row pd0 s)) =
     gateway_calls s @ [(gateway_tag op, gateway row, pd0)]"
  by (auto simp: call_and_commit_def Let_def gateway_calls_def
      split: option.splits sum.splits prod.splits if_splits
      dest!: fetch_state maybe_update_frame commit_frame)

lemma commit_reuse_last:
  assumes "\<exists>u \<in> set (ledger s). payment_id u = pid pay \<and> kind u = k \<and>
             token u = correlating_token pd resp \<and> is_success u"
  shows "get_already_processed_transaction_or_create_new_transaction pay k pd act err resp s =
           (last (filter (\<lambda>t. payment_id t = pid pay \<and> kind t = k \<and>
                               token t = correlating_token pd resp \<and> is_success t) (ledger s)),
            s)"
proof -
  let ?P = "\<lambda>t. payment_id t = pid pay \<and> kind t = k \<and>
                 token t = correlating_token pd resp \<and> is_success t"
  have eq: "already_processed s pay k (correlating_token pd resp) = filter ?P (ledger s)"
    by (simp add: already_processed_def transactions_def)
  from assms have "filter ?P (ledger s) \<noteq> []"
    by (auto simp: filter_empty_conv)
  then show ?thesis
    by (simp add: get_already_processed_transaction_or_create_new_transaction_def eq last_row_def)
qed

lemma fetch_returns:
  "fn gw pd = Returns r \<Longrightarrow> validate_gateway_response ev r = None \<Longrightarrow>
   fetch_gateway_response ev tag fn gw pd s =
     (Inr (Some r, None), s\<lparr>trace := trace s @ [GatewayCall tag gw pd]\<rparr>)"
  by (simp add: fetch_gateway_response_def Let_def)

lemma fetch_fails:
  "(\<exists>m. fn gw pd = Raises (GatewayError m)) \<or> (\<exists>m. fn gw pd = Raises (PaymentError m)) \<or>
   (\<exists>r m. fn gw pd = Returns r \<and> validate_gateway_response ev r = Some m) \<Longrightarrow>
   fetch_gateway_response ev tag fn gw pd s =
     (Inr (None, Some ERROR_MSG), s\<lparr>trace := trace s @ [GatewayCall tag gw pd]\<rparr>)"
  by (auto simp: fetch_gateway_response_def Let_def)

lemma call_and_commit_reuse:
  assumes out:
    "(\<exists>r. gateway_function ev op (gateway row) pd = Returns r \<and>
          validate_gateway_response ev r = None \<and> tok = transaction_id r) \<or>
     (tok = pd_token pd \<and>
      ((\<exists>m. gateway_function ev op (gateway row) pd = Raises (GatewayError m)) \<or>
       (\<exists>m. gateway_function ev op (gateway row) pd = Raises (PaymentError m)) \<or>
       (\<exists>r m. gateway_function ev op (gateway row) pd = Returns r \<and>
              validate_gateway_response ev r = Some m)))"
    and ex: "\<exists>u \<in> set (ledger s). payment_id u = pid row \<and> kind u = kind_written op \<and>
               token u = tok \<and> is_success u"
  shows "fst (call_and_commit ev op row pd s) =
           Inr (last (filter (\<lambda>t. payment_id t = pid row \<and> kind t = kind_written op \<and>
                                  token t = tok \<and> is_success t) (ledger s))) \<and>
         ledger (snd (call_and_commit ev op row pd s)) = ledger s"
proof -
  let ?s1 = "s\<lparr>trace := trace s @ [GatewayCall (gateway_tag op) (gateway row) pd]\<rparr>"
  obtain resp err where
    fetch: "fetch_gateway_response ev (gateway_tag op) (gateway_function ev op) (gateway row)
              pd s = (Inr (resp, err), ?s1)"
    and tok: "correlating_token pd resp = tok"
    using out
  proof (elim disjE exE conjE)
    fix r
    assume "gateway_function ev op (gateway row) pd = Returns r"
      "validate_gateway_response ev r = None" "tok = transaction_id r"
    then show ?thesis
      using that [of "Some r" None] by (simp add: fetch_returns correlating_token_def)
  next
    fix m
    assume "tok = pd_token pd" "gateway_function ev op (gateway row) pd = Raises (GatewayError m)"
    then show ?thesis
      using that [of None "Some ERROR_MSG"]
        fetch_fails [of "gateway_function ev op" "gateway row" pd ev "gateway_tag op" s]
      by (simp add: correlating_token_def)
  next
    fix m
    assume "tok = pd_token pd" "gateway_function ev op (gateway row) pd = Raises (PaymentError m)"
    then show ?thesis
      using that [of None "Some ERROR_MSG"]
        fetch_fails [of "gateway_function ev op" "gateway row" pd ev "gateway_tag op" s]
      by (simp add: correlating_token_def)
  next
    fix r m
    assume "tok = pd_token pd" "gateway_function ev op (gateway row) pd = Returns r"
      "validate_gateway_response ev r = Some m"
    then show ?thesis
      using that [of None "Some ERROR_MSG"]
        fetch_fails [of "gateway_function ev op" "gateway row" pd ev "gateway_tag op" s]
      by (simp add: correlating_token_def)
  qed
  obtain row' s2 where
    upd: "(if updates_method op then maybe_update_method row resp ?s1 else (row, ?s1)) = (row', s2)"
    by (cases "if updates_method op then maybe_update_method row resp ?s1 else (row, ?s1)")
  then have fr: "pid row' = pid row \<and> ledger s2 = ledger s"
    by (auto split: if_splits dest!: maybe_update_frame)
  with ex tok have "\<exists>u \<in> set (ledger s2). payment_id u = pid row' \<and> kind u = kind_written op \<and>
               token u = correlating_token pd resp \<and> is_success u"
    by simp
  from commit_reuse_last [OF this] fr tok
  have commit: "get_already_processed_transaction_or_create_new_transaction row'
                  (kind_written op) pd act err resp s2 =
           (last (filter (\<lambda>t. payment_id t = pid row \<and> kind t = kind_written op \<and>
                               token t = tok \<and> is_success t) (ledger s)), s2)" for act
    by simp
  show ?thesis
    using fetch upd commit fr by (simp add: call_and_commit_def Let_def)
qed

lemma run_reuse:
  assumes act: "is_active p" and sel: "select_for_update p s = (Inr row, s1)"
    and nm: "\<not> (is_refund op \<and> is_manual row)"
    and reach: "gateway_calls (snd (run ev op p s)) = gateway_calls s @ [(tag, gw, pd)]"
    and out:
      "(\<exists>r. gateway_function ev op gw pd = Returns r \<and>
            validate_gateway_response ev r = None \<and> tok = transaction_id r) \<or>
       (tok = pd_token pd \<and>
        ((\<exists>m. gateway_function ev op gw pd = Raises (GatewayError m)) \<or>
         (\<exists>m. gateway_function ev op gw pd = Raises (PaymentError m)) \<or>
         (\<exists>r m. gateway_function ev op gw pd = Returns r \<and>
                validate_gateway_response ev r = Some m)))"
    and ex: "\<exists>u \<in> set (ledger s). payment_id u = pid row \<and> kind u = kind_written op \<and>
               token u = tok \<and> is_success u"
  shows "fst (run ev op p s) =
           Inr (last (filter (\<lambda>t. payment_id t = pid row \<and> kind t = kind_written op \<and>
                                  token t = tok \<and> is_success t) (ledger s))) \<and>
         ledger (snd (run ev op p s)) = ledger s"
proof -
  let ?P = "\<lambda>t. payment_id t = pid row \<and> kind t = kind_written op \<and> token t = tok \<and>
                 is_success t"
  let ?v = "last (filter ?P (ledger s))"
  have l1: "ledger s1 = ledger s"
    using select_ledger [OF sel] by simp
  have g1: "gateway_calls s1 = gateway_calls s"
    using select_gateway_calls [OF sel] .
  have reach1: "gateway_calls (snd (run_body ev op row s1)) = gateway_calls s1 @ [(tag, gw, pd)]"
    using reach run_gateway_calls [OF act sel, of ev op] g1 by simp
  have "\<not> (\<exists>e. run_body ev op row s1 = (Inl e, s1))"
  proof
    assume "\<exists>e. run_body ev op row s1 = (Inl e, s1)"
    then obtain e where "run_body ev op row s1 = (Inl e, s1)" ..
    with reach1 show False by simp
  qed
  with body_shape [OF nm, of ev s1]
  have "\<exists>pd0. run_body ev op row s1 = call_and_commit ev op row pd0 s1"
    by blast
  then obtain pd0 where shape: "run_body ev op row s1 = call_and_commit ev op row pd0 s1" ..
  with reach1 have "(gateway_tag op, gateway row, pd0) = (tag, gw, pd)"
    by (simp add: call_and_commit_calls)
  then have eqs: "gw = gateway row" "pd0 = pd"
    by simp_all
  have ex1: "\<exists>u \<in> set (ledger s1). payment_id u = pid row \<and> kind u = kind_written op \<and>
               token u = tok \<and> is_success u"
    using ex l1 by simp
  have out1:
      "(\<exists>r. gateway_function ev op (gateway row) pd = Returns r \<and>
            validate_gateway_response ev r = None \<and> tok = transaction_id r) \<or>
       (tok = pd_token pd \<and>
        ((\<exists>m. gateway_function ev op (gateway row) pd = Raises (GatewayError m)) \<or>
         (\<exists>m. gateway_function ev op (gateway row) pd = Raises (PaymentError m)) \<or>
         (\<exists>r m. gateway_function ev op (gateway row) pd = Returns r \<and>
                validate_gateway_response ev r = Some m)))"
    using out eqs by simp
  from call_and_commit_reuse [OF out1 ex1] shape eqs l1
  have b: "fst (run_body ev op row s1) = Inr ?v \<and>
           ledger (snd (run_body ev op row s1)) = ledger s"
    by simp
  then obtain s2 where body: "run_body ev op row s1 = (Inr ?v, s2)" and l2: "ledger s2 = ledger s"
    by (cases "run_body ev op row s1") auto
  from ex have "filter ?P (ledger s) \<noteq> []"
    by (auto simp: filter_empty_conv)
  then have "?v \<in> set (filter ?P (ledger s))"
    by (rule last_in_set)
  then have succ: "is_success ?v"
    by simp
  show ?thesis
  proof (cases "is_capture op")
    case True
    then obtain a ss where "op = Capture a ss" by (cases op) auto
    with act sel body succ l2 show ?thesis
      using run_returns_capture [of p s row s1 ev a ss ?v s2]
      by (simp add: gateway_postprocess_def)
  next
    case False
    with act sel body succ l2 show ?thesis
      using run_returns [of p s row s1 ev op ?v s2]
      by (simp add: gateway_postprocess_def)
  qed
qed

subsection \<open>The inactive guard\<close>

text \<open>
  C3. Every orchestrator called with a payment whose \<open>is_active\<close> flag is false raises
  the inactive-payment error and leaves the whole state as it was: no row is locked or
  written, no gateway function is called and the hook does not run.
\<close>

theorem inactive_guard:
  "\<not> is_active payment \<Longrightarrow>
   run ev op payment s = (Inl (PaymentError ''This payment is no longer active.''), s)"
  by (cases op)
    (simp_all add: orchestrator_defs raise_payment_error_def require_active_payment_def
      payment_postprocess_def)

theorem inactive_guard_witness:
  "\<not> is_active payment1_inactive \<and>
   run (env_of gw_ok) (Capture None False) payment1_inactive state1 =
     (Inl (PaymentError ''This payment is no longer active.''), state1)"
  using inactive_guard [of payment1_inactive "env_of gw_ok" "Capture None False" state1]
  by (simp add: payment1_inactive_def)

subsection \<open>The gateway-response boundary\<close>

text \<open>
  C5. \<open>fetch_gateway_response\<close> returns the validated response and no error when the
  gateway function returns a response that passes validation; it returns no response and
  the fixed string "Oops! Something went wrong." when the gateway function raises a
  gateway error or a payment error or the response fails validation, whatever message
  the exception carried; and it never raises an exception of those two classes.
\<close>

theorem fetch_gateway_response_boundary:
  "(\<forall>r. fn gw pd = Returns r \<and> validate_gateway_response ev r = None \<longrightarrow>
       fst (fetch_gateway_response ev tag fn gw pd s) = Inr (Some r, None)) \<and>
   ((\<exists>m. fn gw pd = Raises (GatewayError m)) \<or> (\<exists>m. fn gw pd = Raises (PaymentError m)) \<or>
    (\<exists>r m. fn gw pd = Returns r \<and> validate_gateway_response ev r = Some m) \<longrightarrow>
       fst (fetch_gateway_response ev tag fn gw pd s) =
         Inr (None, Some ''Oops! Something went wrong.'')) \<and>
   (\<forall>m. fst (fetch_gateway_response ev tag fn gw pd s) \<noteq> Inl (GatewayError m) \<and>
        fst (fetch_gateway_response ev tag fn gw pd s) \<noteq> Inl (PaymentError m))"
  by (auto simp: fetch_gateway_response_def ERROR_MSG_def Let_def
      split: gw_outcome.splits exn.splits option.splits)

theorem fetch_gateway_response_boundary_witness:
  "gw_raises ''dummy'' payload1 = Raises (GatewayError ''connection reset by 10.0.0.7'') \<and>
   fst (fetch_gateway_response (env_of gw_ok) CapturePayment gw_raises ''dummy'' payload1 state1)
     = Inr (None, Some ''Oops! Something went wrong.'') \<and>
   validate_gateway_response (env_of gw_ok) (case gw_ok ''dummy'' payload1 of Returns r \<Rightarrow> r)
     = None \<and>
   fst (fetch_gateway_response (env_of gw_ok) CapturePayment gw_ok ''dummy'' payload1 state1)
     = Inr (Some (case gw_ok ''dummy'' payload1 of Returns r \<Rightarrow> r), None)"
  using fetch_gateway_response_boundary
          [of gw_raises "''dummy''" payload1 "env_of gw_ok" CapturePayment state1]
        fetch_gateway_response_boundary
          [of gw_ok "''dummy''" payload1 "env_of gw_ok" CapturePayment state1]
  by (simp add: gw_raises_def gw_ok_def env_of_def)

subsection \<open>Refund amount bounds\<close>

text \<open>
  C6, as stated, fails: a refund of exactly the captured amount does not pass the
  amount validation when nothing has been captured, because the amount is then not
  positive.
\<close>

theorem refund_captured_amount_counterexample:
  "captured_amount payment3_uncaptured = 0 \<and>
   validate_refund_amount payment3_uncaptured (captured_amount payment3_uncaptured) =
     Inl (PaymentError ''Amount should be a positive number.'') \<and>
   fst (refund (env_of gw_ok) (Some (captured_amount payment3_uncaptured))
          payment3_uncaptured state3) =
     Inl (PaymentError ''Amount should be a positive number.'')"
  by (simp add: refund_def decorator_defs refund_body_def validate_refund_amount_def
      payment3_uncaptured_def state3_def)

text \<open>
  C6, amended. For an active payment whose row exists: a refund of an amount that is
  not positive raises "Amount should be a positive number."; a refund of a positive
  amount above the captured amount of the row raises "Cannot refund more than
  captured."; the captured amount itself passes the validation when it is positive; and
  a refund without an amount is the refund of the captured amount of the row.
\<close>

theorem refund_amount_bounds:
  assumes "is_active payment" and "payments s (pid payment) = Some row"
  shows "(amount \<le> 0 \<longrightarrow>
            fst (refund ev (Some amount) payment s) =
              Inl (PaymentError ''Amount should be a positive number.'')) \<and>
         (0 < amount \<and> amount > captured_amount row \<longrightarrow>
            fst (refund ev (Some amount) payment s) =
              Inl (PaymentError ''Cannot refund more than captured.'')) \<and>
         (0 < captured_amount row \<longrightarrow>
            validate_refund_amount row (captured_amount row) = Inr ()) \<and>
         refund ev None payment s = refund ev (Some (captured_amount row)) payment s"
  using assms
  by (simp add: refund_def decorator_defs refund_body_def validate_refund_amount_def Let_def)

theorem refund_amount_bounds_witness:
  "is_active payment1 \<and> payments state1 (pid payment1) = Some payment1 \<and>
   (51::rat) > captured_amount payment1 \<and> 0 < captured_amount payment1 \<and>
   fst (refund (env_of gw_ok) (Some 51) payment1 state1) =
     Inl (PaymentError ''Cannot refund more than captured.'') \<and>
   fst (refund (env_of gw_ok) (Some 0) payment1 state1) =
     Inl (PaymentError ''Amount should be a positive number.'') \<and>
   validate_refund_amount payment1 (captured_amount payment1) = Inr () \<and>
   refund (env_of gw_ok) None payment1 state1 =
     refund (env_of gw_ok) (Some (captured_amount payment1)) payment1 state1"
  using refund_amount_bounds [of payment1 state1 payment1 51 "env_of gw_ok"]
        refund_amount_bounds [of payment1 state1 payment1 0 "env_of gw_ok"]
  by (simp add: payment1_def state1_def)

subsection \<open>The post-processing hook\<close>

text \<open>
  C10. When the wrapped body of an orchestrator yields an unsuccessful transaction, the
  call ends in the state the hook leaves when applied to that transaction and its
  payment, and raises the payment error: the hook has run, exactly once, before the error
  reaches the caller.
\<close>

theorem postprocess_before_error:
  assumes "is_active p" and "select_for_update p s = (Inr row, s1)"
    and "run_body ev op row s1 = (Inr t, s2)" and "\<not> is_success t"
  shows "run ev op p s =
           (Inl (PaymentError (error_or_generic t)), gateway_postprocess t (payment_id t) s2) \<and>
         hook_runs (snd (run ev op p s)) = hook_runs s @ [(t, payment_id t)]"
proof -
  have r: "run ev op p s =
           (Inl (PaymentError (error_or_generic t)), gateway_postprocess t (payment_id t) s2)"
  proof (cases "is_capture op")
    case True
    then obtain a ss where "op = Capture a ss" by (cases op) auto
    then show ?thesis using assms run_returns_capture [of p s row s1 ev a ss t s2] by simp
  next
    case False
    then show ?thesis using assms run_returns [of p s row s1 ev op t s2] by simp
  qed
  have "hook_runs s2 = hook_runs s"
    using assms(2,3) body_hook_runs select_hook_runs by metis
  with r show ?thesis by simp
qed

theorem postprocess_before_error_witness:
  "is_active payment1 \<and>
   select_for_update payment1 state1 =
     (Inr payment1, snd (select_for_update payment1 state1)) \<and>
   run_body (env_of gw_declined) (Capture None False) payment1
       (snd (select_for_update payment1 state1)) =
     (Inr declined1,
      snd (run_body (env_of gw_declined) (Capture None False) payment1
             (snd (select_for_update payment1 state1)))) \<and>
   \<not> is_success declined1 \<and>
   fst (run (env_of gw_declined) (Capture None False) payment1 state1) =
     Inl (PaymentError ''Card declined'') \<and>
   hook_runs (snd (run (env_of gw_declined) (Capture None False) payment1 state1)) =
     [(declined1, 1)]"
proof -
  have h1: "is_active payment1"
    by (simp add: payment1_def)
  have h2: "select_for_update payment1 state1 =
              (Inr payment1, snd (select_for_update payment1 state1))"
    by (simp add: eval_defs)
  have h3: "run_body (env_of gw_declined) (Capture None False) payment1
                (snd (select_for_update payment1 state1)) =
              (Inr declined1,
               snd (run_body (env_of gw_declined) (Capture None False) payment1
                      (snd (select_for_update payment1 state1))))"
    by (simp add: eval_defs)
  have h4: "\<not> is_success declined1"
    by (simp add: declined1_def)
  have e: "error_or_generic declined1 = ''Card declined''"
    by (simp add: error_or_generic_def declined1_def)
  have s0: "hook_runs state1 = []"
    by (simp add: hook_runs_def state1_def)
  have p1: "payment_id declined1 = 1"
    by (simp add: declined1_def)
  note T = postprocess_before_error [OF h1 h2 h3 h4]
  have c1: "fst (run (env_of gw_declined) (Capture None False) payment1 state1) =
              Inl (PaymentError ''Card declined'')"
    using T [THEN conjunct1] e by simp
  have c2: "hook_runs (snd (run (env_of gw_declined) (Capture None False) payment1 state1)) =
              [(declined1, 1)]"
    using T [THEN conjunct2] s0 p1 by simp
  from h1 h2 h3 h4 c1 c2 show ?thesis by blast
qed

text \<open>
  C9, as stated, fails: \<open>process_payment\<close> carries the post-processing decorator once
  and runs the hook once per call, and it is \<open>capture\<close> that carries it twice and runs
  the hook twice on a successful call.
\<close>

theorem hook_multiplicity_counterexample:
  "hook_runs state1 = [] \<and>
   length (hook_runs (snd (run (env_of gw_ok) (Process ''tok'' False None None) payment1 state1)))
     = 1 \<and>
   length (hook_runs (snd (run (env_of gw_ok) (Capture None False) payment1 state1))) = 2"
  by (simp add: eval_defs)

text \<open>
  C9, amended. For \<open>process_payment\<close>, \<open>authorize\<close>, \<open>refund\<close>, \<open>void\<close> and
  \<open>confirm\<close>, a call runs the hook exactly once, on the transaction its wrapped body
  yields and that transaction's payment, whether the transaction is new or an existing
  one that is reused, and does not run it when the call fails before the body yields a
  transaction.
\<close>

theorem hook_runs_once:
  assumes "\<not> is_capture op"
  shows "hook_runs (snd (run ev op p s)) =
           hook_runs s @
           (if is_active p
            then (case select_for_update p s of
                    (Inl e, s1) \<Rightarrow> []
                  | (Inr row, s1) \<Rightarrow>
                      (case fst (run_body ev op row s1) of
                         Inl e \<Rightarrow> []
                       | Inr t \<Rightarrow> [(t, payment_id t)]))
            else [])"
proof (cases "is_active p")
  case False
  then show ?thesis by (simp add: run_inactive)
next
  case True
  obtain r s1 where sel: "select_for_update p s = (r, s1)" by (cases "select_for_update p s")
  show ?thesis
  proof (cases r)
    case (Inl e)
    with True sel show ?thesis
      using run_no_row [of p s e s1 ev op] select_hook_runs [of p s r s1] by simp
  next
    case (Inr row)
    obtain b s2 where body: "run_body ev op row s1 = (b, s2)" by (cases "run_body ev op row s1")
    have h: "hook_runs s2 = hook_runs s"
      using sel body body_hook_runs select_hook_runs by metis
    show ?thesis
    proof (cases b)
      case (Inl e)
      with True sel Inr body h show ?thesis
        using run_raises [of p s row s1 ev op e s2] by simp
    next
      case (Inr t)
      with True sel \<open>r = Inr row\<close> body h assms show ?thesis
        using run_returns [of p s row s1 ev op t s2] by simp
    qed
  qed
qed

theorem hook_runs_once_witness:
  "\<not> is_capture (Process ''T1'' False None None) \<and> is_active payment1 \<and>
   fst (run (env_of gw_ok) (Process ''T1'' False None None) payment1 state1_captured) =
     Inr capture1 \<and>
   ledger (snd (run (env_of gw_ok) (Process ''T1'' False None None) payment1 state1_captured))
     = ledger state1_captured \<and>
   hook_runs (snd (run (env_of gw_ok) (Process ''T1'' False None None) payment1
                     state1_captured)) = [(capture1, 1)]"
proof -
  have h: "\<not> is_capture (Process ''T1'' False None None)"
    by simp
  have a: "is_active payment1"
    by (simp add: payment1_def)
  have r: "fst (run (env_of gw_ok) (Process ''T1'' False None None) payment1 state1_captured)
             = Inr capture1"
    by (simp add: eval_defs)
  have l: "ledger (snd (run (env_of gw_ok) (Process ''T1'' False None None) payment1
                          state1_captured)) = ledger state1_captured"
    by (simp add: eval_defs)
  have rhs: "hook_runs state1_captured @
           (if is_active payment1
            then (case select_for_update payment1 state1_captured of
                    (Inl e, s1) \<Rightarrow> []
                  | (Inr row, s1) \<Rightarrow>
                      (case fst (run_body (env_of gw_ok) (Process ''T1'' False None None)
                                   row s1) of
                         Inl e \<Rightarrow> []
                       | Inr t \<Rightarrow> [(t, payment_id t)]))
            else []) = [(capture1, 1)]"
    by (simp add: eval_defs)
  have "hook_runs (snd (run (env_of gw_ok) (Process ''T1'' False None None) payment1
                          state1_captured)) = [(capture1, 1)]"
    using hook_runs_once [OF h, of "env_of gw_ok" payment1 state1_captured] rhs
    by (simp only:)
  with h a r l show ?thesis by blast
qed

subsection \<open>The order of the guards\<close>

text \<open>
  C4, as stated, fails: \<open>require_active_payment\<close> wraps \<open>with_locked_payment\<close>, so
  the activity check reads the payment the caller passed, before the row is locked and
  read again. A caller holding an active copy of a payment that has been deactivated in
  the database gets the operation run: the gateway is called and the call succeeds.
\<close>

theorem guard_reads_caller_payment_counterexample:
  "is_active payment1 \<and>
   payments state1_deactivated (pid payment1) = Some payment1_inactive \<and>
   \<not> is_active payment1_inactive \<and>
   fst (run (env_of gw_ok) Void payment1 state1_deactivated) = Inr void1 \<and>
   gateway_calls (snd (run (env_of gw_ok) Void payment1 state1_deactivated)) =
     [(VoidPayment, ''dummy'', payload1)]"
  by (simp add: eval_defs)

text \<open>
  C4, amended. For every orchestrator the activity check is evaluated on the payment the
  caller passed: when that payment is inactive the call raises the inactive-payment error
  and nothing is locked or read; when it is active the row is requested under lock next,
  and the outcome is that of the wrapped body run on the row read under the lock, with
  no further activity check.
\<close>

theorem guard_checks_caller_payment:
  "(\<not> is_active p \<longrightarrow>
      run ev op p s = (Inl (PaymentError ''This payment is no longer active.''), s)) \<and>
   (is_active p \<longrightarrow>
      (\<exists>evs. trace (snd (run ev op p s)) = trace s @ SelectForUpdate (pid p) # evs)) \<and>
   (\<forall>row s1. is_active p \<and> select_for_update p s = (Inr row, s1) \<longrightarrow>
      fst (run ev op p s) =
        (case fst (run_body ev op row s1) of
           Inl e \<Rightarrow> Inl e
         | Inr t \<Rightarrow> if is_success t then Inr t else Inl (PaymentError (error_or_generic t))))"
  using run_inactive [of p ev op s] run_trace_prefix [of p ev op s] run_outcome [of p s _ _ ev op]
  by blast

theorem guard_checks_caller_payment_witness:
  "\<not> is_active payment1_inactive \<and>
   run (env_of gw_ok) Void payment1_inactive state1 =
     (Inl (PaymentError ''This payment is no longer active.''), state1) \<and>
   is_active payment1 \<and>
   select_for_update payment1 state1_deactivated =
     (Inr payment1_inactive, snd (select_for_update payment1 state1_deactivated)) \<and>
   fst (run (env_of gw_ok) Void payment1 state1_deactivated) = Inr void1 \<and>
   (\<exists>evs. trace (snd (run (env_of gw_ok) Void payment1 state1_deactivated)) =
      trace state1_deactivated @ SelectForUpdate (pid payment1) # evs)"
proof -
  have h1: "\<not> is_active payment1_inactive"
    by (simp add: payment1_inactive_def)
  have h2: "is_active payment1"
    by (simp add: payment1_def)
  have h3: "select_for_update payment1 state1_deactivated =
     (Inr payment1_inactive, snd (select_for_update payment1 state1_deactivated))"
    by (simp add: eval_defs)
  have b: "(case fst (run_body (env_of gw_ok) Void payment1_inactive
                        (snd (select_for_update payment1 state1_deactivated))) of
              Inl e \<Rightarrow> Inl e
            | Inr t \<Rightarrow> if is_success t then Inr t else Inl (PaymentError (error_or_generic t)))
           = Inr void1"
    by (simp add: eval_defs)
  note T1 = guard_checks_caller_payment [of payment1_inactive "env_of gw_ok" Void state1]
  note T2 = guard_checks_caller_payment [of payment1 "env_of gw_ok" Void state1_deactivated]
  have c1: "run (env_of gw_ok) Void payment1_inactive state1 =
     (Inl (PaymentError ''This payment is no longer active.''), state1)"
    using T1 h1 by blast
  have c2: "\<exists>evs. trace (snd (run (env_of gw_ok) Void payment1 state1_deactivated)) =
      trace state1_deactivated @ SelectForUpdate (pid payment1) # evs"
    using T2 h2 by blast
  have "fst (run (env_of gw_ok) Void payment1 state1_deactivated) =
        (case fst (run_body (env_of gw_ok) Void payment1_inactive
                        (snd (select_for_update payment1 state1_deactivated))) of
              Inl e \<Rightarrow> Inl e
            | Inr t \<Rightarrow> if is_success t then Inr t else Inl (PaymentError (error_or_generic t)))"
    using T2 h2 h3 by blast
  with b have c3: "fst (run (env_of gw_ok) Void payment1 state1_deactivated) = Inr void1"
    by (simp only:)
  from h1 c1 h2 h3 c3 c2 show ?thesis by blast
qed

subsection \<open>The manual refund path\<close>

text \<open>
  C8. For an active manual payment whose row exists, whose refund amount passes the
  validation, which can be refunded and has a successful EXTERNAL transaction,
  \<open>refund\<close> returns a new successful REFUND transaction of that payment, appended to
  the ledger, calls no gateway function and runs the hook once on it.
\<close>

theorem manual_refund_without_gateway:
  assumes "is_active p" and "select_for_update p s = (Inr row, s1)" and "is_manual row"
    and "validate_refund_amount row (case amount of None \<Rightarrow> captured_amount row | Some a \<Rightarrow> a)
           = Inr ()"
    and "can_refund ev row"
    and "filter (\<lambda>t. kind t = EXTERNAL \<and> is_success t) (transactions s row) \<noteq> []"
  shows "\<exists>t. fst (run ev (Refund amount) p s) = Inr t \<and>
             ledger (snd (run ev (Refund amount) p s)) = ledger s @ [t] \<and>
             kind t = REFUND \<and> is_success t \<and> payment_id t = pid row \<and>
             gateway_calls (snd (run ev (Refund amount) p s)) = gateway_calls s \<and>
             hook_runs (snd (run ev (Refund amount) p s)) = hook_runs s @ [(t, pid row)]"
proof -
  have "filter (\<lambda>t. kind t = EXTERNAL \<and> is_success t) (transactions s1 row) \<noteq> []"
    using assms(2,6) transactions_select by metis
  then obtain t where
    body: "run_body ev (Refund amount) row s1 = (Inr t, s1\<lparr>ledger := ledger s1 @ [t]\<rparr>)"
    and t: "kind t = REFUND" "is_success t" "payment_id t = pid row"
    using refund_body_manual [OF assms(3,4,5), of s1] by auto
  have r: "run ev (Refund amount) p s =
             (Inr t, gateway_postprocess t (payment_id t) (s1\<lparr>ledger := ledger s1 @ [t]\<rparr>))"
    using run_returns [OF assms(1,2) body] t by simp
  have l: "ledger s1 = ledger s"
    using select_ledger [OF assms(2)] by simp
  have g: "gateway_calls s1 = gateway_calls s"
    using select_gateway_calls [OF assms(2)] .
  have h: "hook_runs s1 = hook_runs s"
    using select_hook_runs [OF assms(2)] .
  have "fst (run ev (Refund amount) p s) = Inr t"
    using r by simp
  moreover have "ledger (snd (run ev (Refund amount) p s)) = ledger s @ [t]"
    using r l by (simp add: gateway_postprocess_def)
  moreover have "gateway_calls (snd (run ev (Refund amount) p s)) = gateway_calls s"
    using r g by (simp add: gateway_calls_def gateway_postprocess_def)
  moreover have "hook_runs (snd (run ev (Refund amount) p s)) = hook_runs s @ [(t, pid row)]"
    using r h t by (simp add: hook_runs_def gateway_postprocess_def)
  ultimately show ?thesis using t by blast
qed

theorem manual_refund_without_gateway_witness:
  "is_active payment2_manual \<and>
   select_for_update payment2_manual state2_external =
     (Inr payment2_manual, snd (select_for_update payment2_manual state2_external)) \<and>
   is_manual payment2_manual \<and>
   validate_refund_amount payment2_manual (captured_amount payment2_manual) = Inr () \<and>
   can_refund (env_of gw_raises) payment2_manual \<and>
   filter (\<lambda>t. kind t = EXTERNAL \<and> is_success t) (transactions state2_external payment2_manual)
     \<noteq> [] \<and>
   fst (run (env_of gw_raises) (Refund None) payment2_manual state2_external) = Inr refund2 \<and>
   kind refund2 = REFUND \<and> is_success refund2 \<and>
   ledger (snd (run (env_of gw_raises) (Refund None) payment2_manual state2_external)) =
     [external2, refund2] \<and>
   gateway_calls (snd (run (env_of gw_raises) (Refund None) payment2_manual state2_external))
     = []"
proof -
  have h1: "is_active payment2_manual"
    by (simp add: payment2_manual_def)
  have h2: "select_for_update payment2_manual state2_external =
     (Inr payment2_manual, snd (select_for_update payment2_manual state2_external))"
    by (simp add: eval_defs)
  have h3: "is_manual payment2_manual"
    by (simp add: payment2_manual_def)
  have h4: "validate_refund_amount payment2_manual
              (case None of None \<Rightarrow> captured_amount payment2_manual | Some a \<Rightarrow> a) = Inr ()"
    by (simp add: validate_refund_amount_def payment2_manual_def)
  have h5: "can_refund (env_of gw_raises) payment2_manual"
    by (simp add: env_of_def)
  have h6: "filter (\<lambda>t. kind t = EXTERNAL \<and> is_success t)
              (transactions state2_external payment2_manual) \<noteq> []"
    by (simp add: eval_defs)
  have r: "fst (run (env_of gw_raises) (Refund None) payment2_manual state2_external) =
             Inr refund2"
    by (simp add: eval_defs)
  have s0: "ledger state2_external = [external2]" "gateway_calls state2_external = []"
    by (simp_all add: state2_external_def gateway_calls_def)
  from manual_refund_without_gateway [OF h1 h2 h3 h4 h5 h6] r s0
  have c: "kind refund2 = REFUND \<and> is_success refund2 \<and>
    ledger (snd (run (env_of gw_raises) (Refund None) payment2_manual state2_external)) =
      [external2, refund2] \<and>
    gateway_calls (snd (run (env_of gw_raises) (Refund None) payment2_manual state2_external))
      = []"
    by auto
  have h4': "validate_refund_amount payment2_manual (captured_amount payment2_manual) = Inr ()"
    using h4 by simp
  from h1 h2 h3 h4' h5 h6 r c show ?thesis by blast
qed

subsection \<open>Success or error\<close>

text \<open>
  C2, as stated, fails: a call can end in neither of the two ways the claim allows. When
  the row of the payment no longer exists the call raises \<^verbatim>\<open>DoesNotExist\<close>, which is
  no payment error; when \<open>capture\<close> finds no successful authorization it raises a
  payment error that carries the message of no transaction, the ledger being empty.
\<close>

theorem call_raises_without_transaction_counterexample:
  "fst (run (env_of gw_ok) Void payment1 state_no_row) = Inl DoesNotExist \<and>
   fst (run (env_of gw_ok) (Capture None False) payment1 state1_fresh) =
     Inl (PaymentError ''Cannot find successful AUTH transaction.'') \<and>
   ledger (snd (run (env_of gw_ok) (Capture None False) payment1 state1_fresh)) = []"
  by (simp add: eval_defs)

text \<open>
  C2, amended. No orchestrator returns an unsuccessful transaction, and every call ends
  in exactly one of these ways. On an inactive payment it raises the inactive-payment
  error. On an active payment whose row is gone it raises \<^verbatim>\<open>DoesNotExist\<close>. On an
  active payment whose row exists it ends as the wrapped body run on that row does: an
  exception of the body is raised, a successful transaction is returned, and an
  unsuccessful transaction becomes a payment error carrying its error message, or
  "Transaction was unsuccessful." when the message is absent or empty.
\<close>

theorem success_or_error:
  "(\<forall>t. fst (run ev op p s) = Inr t \<longrightarrow> is_success t) \<and>
   (\<forall>row s1 t s2.
      is_active p \<and> select_for_update p s = (Inr row, s1) \<and>
      run_body ev op row s1 = (Inr t, s2) \<and> \<not> is_success t \<longrightarrow>
      fst (run ev op p s) =
        Inl (PaymentError
              (case error t of
                 None \<Rightarrow> ''Transaction was unsuccessful.''
               | Some m \<Rightarrow> if m = [] then ''Transaction was unsuccessful.'' else m))) \<and>
   (\<forall>row s1 t s2.
      is_active p \<and> select_for_update p s = (Inr row, s1) \<and>
      run_body ev op row s1 = (Inr t, s2) \<and> is_success t \<longrightarrow>
      fst (run ev op p s) = Inr t) \<and>
   (\<forall>row s1 e s2.
      is_active p \<and> select_for_update p s = (Inr row, s1) \<and>
      run_body ev op row s1 = (Inl e, s2) \<longrightarrow>
      fst (run ev op p s) = Inl e) \<and>
   (\<forall>e s1.
      is_active p \<and> select_for_update p s = (Inl e, s1) \<longrightarrow>
      e = DoesNotExist \<and> fst (run ev op p s) = Inl DoesNotExist) \<and>
   (\<not> is_active p \<longrightarrow>
      fst (run ev op p s) = Inl (PaymentError ''This payment is no longer active.''))"
proof (intro conjI allI impI)
  fix t assume "fst (run ev op p s) = Inr t"
  then show "is_success t"
    by (cases op)
      (auto simp: orchestrator_defs raise_payment_error_def payment_postprocess_def
        split: prod.splits sum.splits if_splits)
next
  fix row s1 t s2
  assume h: "is_active p \<and> select_for_update p s = (Inr row, s1) \<and>
      run_body ev op row s1 = (Inr t, s2) \<and> \<not> is_success t"
  then show "fst (run ev op p s) =
        Inl (PaymentError
              (case error t of
                 None \<Rightarrow> ''Transaction was unsuccessful.''
               | Some m \<Rightarrow> if m = [] then ''Transaction was unsuccessful.'' else m))"
    using run_outcome [of p s row s1 ev op]
    by (simp add: error_or_generic_def GENERIC_TRANSACTION_ERROR_def split: option.splits)
next
  fix row s1 t s2
  assume "is_active p \<and> select_for_update p s = (Inr row, s1) \<and>
      run_body ev op row s1 = (Inr t, s2) \<and> is_success t"
  then show "fst (run ev op p s) = Inr t"
    using run_outcome [of p s row s1 ev op] by simp
next
  fix row s1 e s2
  assume "is_active p \<and> select_for_update p s = (Inr row, s1) \<and>
      run_body ev op row s1 = (Inl e, s2)"
  then show "fst (run ev op p s) = Inl e"
    using run_outcome [of p s row s1 ev op] by simp
next
  fix e s1
  assume h: "is_active p \<and> select_for_update p s = (Inl e, s1)"
  then show "e = DoesNotExist" 
    using select_for_update_state [of p s "Inl e" s1] by simp
  with h show "fst (run ev op p s) = Inl DoesNotExist"
    using run_no_row [of p s e s1 ev op] by simp
next
  assume "\<not> is_active p"
  then show "fst (run ev op p s) = Inl (PaymentError ''This payment is no longer active.'')"
    by (simp add: run_inactive)
qed

theorem success_or_error_witness:
  "fst (run (env_of gw_ok) (Capture None False) payment1 state1) = Inr capture1 \<and>
   is_success capture1 \<and>
   is_active payment1 \<and>
   select_for_update payment1 state1 =
     (Inr payment1, snd (select_for_update payment1 state1)) \<and>
   run_body (env_of gw_declined) (Capture None False) payment1
       (snd (select_for_update payment1 state1)) =
     (Inr declined1,
      snd (run_body (env_of gw_declined) (Capture None False) payment1
             (snd (select_for_update payment1 state1)))) \<and>
   \<not> is_success declined1 \<and>
   fst (run (env_of gw_declined) (Capture None False) payment1 state1) =
     Inl (PaymentError ''Card declined'') \<and>
   select_for_update payment1 state_no_row =
     (Inl DoesNotExist, snd (select_for_update payment1 state_no_row)) \<and>
   fst (run (env_of gw_ok) Void payment1 state_no_row) = Inl DoesNotExist \<and>
   \<not> is_active payment1_inactive \<and>
   fst (run (env_of gw_ok) Void payment1_inactive state1) =
     Inl (PaymentError ''This payment is no longer active.'')"
proof -
  note T = success_or_error [of "env_of gw_ok" "Capture None False" payment1 state1]
  note D = success_or_error [of "env_of gw_declined" "Capture None False" payment1 state1]
  note N = success_or_error [of "env_of gw_ok" Void payment1 state_no_row]
  note I = success_or_error [of "env_of gw_ok" Void payment1_inactive state1]
  have ok: "fst (run (env_of gw_ok) (Capture None False) payment1 state1) = Inr capture1"
    by (simp add: eval_defs)
  have ok_success: "is_success capture1"
    using T ok by blast
  have hyps:
    "is_active payment1 \<and>
     select_for_update payment1 state1 =
       (Inr payment1, snd (select_for_update payment1 state1)) \<and>
     run_body (env_of gw_declined) (Capture None False) payment1
         (snd (select_for_update payment1 state1)) =
       (Inr declined1,
        snd (run_body (env_of gw_declined) (Capture None False) payment1
               (snd (select_for_update payment1 state1)))) \<and>
     \<not> is_success declined1"
    by (simp add: eval_defs)
  have "fst (run (env_of gw_declined) (Capture None False) payment1 state1) =
        Inl (PaymentError
              (case error declined1 of
                 None \<Rightarrow> ''Transaction was unsuccessful.''
               | Some m \<Rightarrow> if m = [] then ''Transaction was unsuccessful.'' else m))"
    using D hyps by blast
  then have declined:
    "fst (run (env_of gw_declined) (Capture None False) payment1 state1) =
       Inl (PaymentError ''Card declined'')"
    by (simp add: declined1_def)
  have n1: "is_active payment1 \<and> select_for_update payment1 state_no_row =
     (Inl DoesNotExist, snd (select_for_update payment1 state_no_row))"
    by (simp add: eval_defs)
  have n2: "fst (run (env_of gw_ok) Void payment1 state_no_row) = Inl DoesNotExist"
    using N n1 by blast
  have i1: "\<not> is_active payment1_inactive"
    by (simp add: payment1_inactive_def)
  have i2: "fst (run (env_of gw_ok) Void payment1_inactive state1) =
     Inl (PaymentError ''This payment is no longer active.'')"
    using I i1 by blast
  from ok ok_success hyps declined n1 n2 i1 i2 show ?thesis by blast
qed

subsection \<open>Precondition chaining\<close>

text \<open>
  C7, as stated, fails: \<open>capture\<close> applies \<open>clean_capture\<close> before it looks for the
  authorization, so on a payment with no successful AUTH transaction whose amount
  \<open>clean_capture\<close> rejects, the error raised is that of \<open>clean_capture\<close> and not the
  required-prior-transaction error.
\<close>

theorem capture_clean_capture_first_counterexample:
  "ledger state1_fresh = [] \<and> is_active payment1 \<and>
   payments state1_fresh (pid payment1) = Some payment1 \<and>
   fst (run env_rejecting (Capture None False) payment1 state1_fresh) =
     Inl (PaymentError ''Cannot charge this amount.'')"
  by (simp add: eval_defs)

text \<open>
  C7, amended. For an active payment whose row exists: when \<open>clean_capture\<close> rejects
  the amount, \<open>capture\<close> raises its error, calls no gateway function and writes
  nothing; when \<open>clean_capture\<close> passes and the ledger holds no successful AUTH
  transaction of the payment, \<open>capture\<close> raises "Cannot find successful AUTH
  transaction.", calls no gateway function and writes nothing; when \<open>clean_capture\<close>
  passes and \<open>a\<close> is the last successful AUTH transaction of the payment in the ledger,
  \<open>capture\<close> calls the capture function of the gateway once, with a payload whose
  token is the token of \<open>a\<close>.
\<close>

theorem capture_requires_auth:
  assumes "is_active p" and "select_for_update p s = (Inr row, s1)"
  shows "(\<forall>m. clean_capture ev row (case amount of None \<Rightarrow> get_charge_amount row | Some a \<Rightarrow> a)
                = Some m \<longrightarrow>
            fst (run ev (Capture amount ss) p s) = Inl (PaymentError m) \<and>
            gateway_calls (snd (run ev (Capture amount ss) p s)) = gateway_calls s \<and>
            ledger (snd (run ev (Capture amount ss) p s)) = ledger s) \<and>
         (clean_capture ev row (case amount of None \<Rightarrow> get_charge_amount row | Some a \<Rightarrow> a)
                = None \<and>
          (\<forall>t \<in> set (ledger s).
              \<not> (payment_id t = pid row \<and> kind t = AUTH \<and> is_success t)) \<longrightarrow>
            fst (run ev (Capture amount ss) p s) =
              Inl (PaymentError ''Cannot find successful AUTH transaction.'') \<and>
            gateway_calls (snd (run ev (Capture amount ss) p s)) = gateway_calls s \<and>
            ledger (snd (run ev (Capture amount ss) p s)) = ledger s) \<and>
         (\<forall>before a after.
            clean_capture ev row (case amount of None \<Rightarrow> get_charge_amount row | Some a \<Rightarrow> a)
                = None \<and>
            ledger s = before @ a # after \<and>
            payment_id a = pid row \<and> kind a = AUTH \<and> is_success a \<and>
            (\<forall>t \<in> set after.
                \<not> (payment_id t = pid row \<and> kind t = AUTH \<and> is_success t)) \<longrightarrow>
            (\<exists>pd. gateway_calls (snd (run ev (Capture amount ss) p s)) =
                     gateway_calls s @ [(CapturePayment, gateway row, pd)] \<and>
                   pd_token pd = token a))"
proof -
  let ?amt = "case amount of None \<Rightarrow> get_charge_amount row | Some a \<Rightarrow> a"
  let ?R = "run ev (Capture amount ss) p s"
  have l1: "ledger s1 = ledger s"
    using select_ledger [OF assms(2)] by simp
  have g1: "gateway_calls s1 = gateway_calls s"
    using select_gateway_calls [OF assms(2)] .
  have raised: "fst ?R = Inl e \<and> gateway_calls (snd ?R) = gateway_calls s \<and>
                ledger (snd ?R) = ledger s"
    if "run_body ev (Capture amount ss) row s1 = (Inl e, s1)" for e
    using run_raises [OF assms(1,2) that] g1 by simp
  have A: "fst ?R = Inl (PaymentError m) \<and> gateway_calls (snd ?R) = gateway_calls s \<and>
           ledger (snd ?R) = ledger s"
    if "clean_capture ev row ?amt = Some m" for m
    using raised [of "PaymentError m"] capture_body_rejected [OF that, of ss s1] by simp
  have B: "fst ?R = Inl (PaymentError ''Cannot find successful AUTH transaction.'') \<and>
           gateway_calls (snd ?R) = gateway_calls s \<and> ledger (snd ?R) = ledger s"
    if "clean_capture ev row ?amt = None"
      and "\<forall>t \<in> set (ledger s). \<not> (payment_id t = pid row \<and> kind t = AUTH \<and> is_success t)"
    using raised [of "PaymentError ''Cannot find successful AUTH transaction.''"]
      capture_body_no_auth [OF that(1), of s1 ss] that(2) l1 by simp
  have C: "\<exists>pd. gateway_calls (snd ?R) = gateway_calls s @ [(CapturePayment, gateway row, pd)] \<and>
                pd_token pd = token a"
    if "clean_capture ev row ?amt = None" and "ledger s = before @ a # after"
      and "payment_id a = pid row \<and> kind a = AUTH \<and> is_success a"
      and "\<forall>t \<in> set after. \<not> (payment_id t = pid row \<and> kind t = AUTH \<and> is_success t)"
    for before a after
  proof -
    have "ledger s1 = before @ a # after" using that(2) l1 by simp
    then have "gateway_calls (snd (run_body ev (Capture amount ss) row s1)) =
           gateway_calls s1 @
           [(CapturePayment, gateway row,
             create_payment_information row (token a) (Some ?amt) ss None)]"
      using capture_body_with_auth [OF that(1) _ that(3,4), of s1 before ss] by simp
    then have "gateway_calls (snd ?R) =
           gateway_calls s @
           [(CapturePayment, gateway row,
             create_payment_information row (token a) (Some ?amt) ss None)]"
      using run_gateway_calls [OF assms(1,2), of ev "Capture amount ss"] g1 by simp
    then show ?thesis by (simp add: create_payment_information_def)
  qed
  from A B C show ?thesis by blast
qed

theorem capture_requires_auth_witness:
  "is_active payment1 \<and>
   select_for_update payment1 state1_other_auth =
     (Inr payment1, snd (select_for_update payment1 state1_other_auth)) \<and>
   clean_capture env_rejecting payment1 (get_charge_amount payment1) =
     Some ''Cannot charge this amount.'' \<and>
   fst (run env_rejecting (Capture None False) payment1 state1_other_auth) =
     Inl (PaymentError ''Cannot charge this amount.'') \<and>
   clean_capture (env_of gw_ok) payment1 (get_charge_amount payment1) = None \<and>
   ledger state1_other_auth = [auth9] \<and> payment_id auth9 \<noteq> pid payment1 \<and>
   fst (run (env_of gw_ok) (Capture None False) payment1 state1_other_auth) =
     Inl (PaymentError ''Cannot find successful AUTH transaction.'') \<and>
   gateway_calls (snd (run (env_of gw_ok) (Capture None False) payment1 state1_other_auth))
     = [] \<and>
   select_for_update payment1 state1_shared =
     (Inr payment1, snd (select_for_update payment1 state1_shared)) \<and>
   ledger state1_shared = [] @ auth1 # [auth9] \<and>
   payment_id auth1 = pid payment1 \<and> kind auth1 = AUTH \<and> is_success auth1 \<and>
   (\<exists>pd. gateway_calls (snd (run (env_of gw_ok) (Capture None False) payment1 state1_shared)) =
            [(CapturePayment, ''dummy'', pd)] \<and> pd_token pd = ''A1'')"
proof -
  have h1: "is_active payment1"
    by (simp add: payment1_def)
  have h2: "select_for_update payment1 state1_other_auth =
     (Inr payment1, snd (select_for_update payment1 state1_other_auth))"
    by (simp add: eval_defs)
  have h2': "select_for_update payment1 state1_shared =
     (Inr payment1, snd (select_for_update payment1 state1_shared))"
    by (simp add: eval_defs)
  have r: "clean_capture env_rejecting payment1
              (case None of None \<Rightarrow> get_charge_amount payment1 | Some a \<Rightarrow> a) =
             Some ''Cannot charge this amount.''"
    by (simp add: env_rejecting_def env_of_def)
  have h3: "clean_capture (env_of gw_ok) payment1
              (case None of None \<Rightarrow> get_charge_amount payment1 | Some a \<Rightarrow> a) = None"
    by (simp add: env_of_def)
  have h4: "\<forall>t \<in> set (ledger state1_other_auth).
              \<not> (payment_id t = pid payment1 \<and> kind t = AUTH \<and> is_success t)"
    by (simp add: state1_other_auth_def auth9_def payment1_def)
  have h5: "ledger state1_shared = [] @ auth1 # [auth9]"
    by (simp add: state1_shared_def)
  have h6: "payment_id auth1 = pid payment1 \<and> kind auth1 = AUTH \<and> is_success auth1"
    by (simp add: auth1_def payment1_def)
  have h7: "\<forall>t \<in> set [auth9]. \<not> (payment_id t = pid payment1 \<and> kind t = AUTH \<and> is_success t)"
    by (simp add: auth9_def payment1_def)
  have n1: "ledger state1_other_auth = [auth9]"
    by (simp add: state1_other_auth_def)
  have n2: "payment_id auth9 \<noteq> pid payment1"
    by (simp add: auth9_def payment1_def)
  have g0: "gateway_calls state1_other_auth = []" "gateway_calls state1_shared = []"
    by (simp_all add: gateway_calls_def state1_other_auth_def state1_shared_def)
  have tk: "token auth1 = ''A1''" "gateway payment1 = ''dummy''"
    by (simp_all add: auth1_def payment1_def)
  note R = capture_requires_auth [OF h1 h2, of env_rejecting None False]
  note A = capture_requires_auth [OF h1 h2, of "env_of gw_ok" None False]
  note B = capture_requires_auth [OF h1 h2', of "env_of gw_ok" None False]
  have c0: "fst (run env_rejecting (Capture None False) payment1 state1_other_auth) =
     Inl (PaymentError ''Cannot charge this amount.'')"
    using R r by blast
  have c1: "fst (run (env_of gw_ok) (Capture None False) payment1 state1_other_auth) =
     Inl (PaymentError ''Cannot find successful AUTH transaction.'')"
    using A h3 h4 by blast
  have "gateway_calls (snd (run (env_of gw_ok) (Capture None False) payment1
                              state1_other_auth)) = gateway_calls state1_other_auth"
    using A h3 h4 by blast
  then have c2: "gateway_calls (snd (run (env_of gw_ok) (Capture None False) payment1
                              state1_other_auth)) = []"
    using g0 by simp
  have "\<exists>pd. gateway_calls (snd (run (env_of gw_ok) (Capture None False) payment1
                                    state1_shared)) =
            gateway_calls state1_shared @ [(CapturePayment, gateway payment1, pd)] \<and>
            pd_token pd = token auth1"
    using B h3 h5 h6 h7 by blast
  then have c3: "\<exists>pd. gateway_calls (snd (run (env_of gw_ok) (Capture None False) payment1
                                    state1_shared)) =
            [(CapturePayment, ''dummy'', pd)] \<and> pd_token pd = ''A1''"
    using g0 tk by simp
  have r': "clean_capture env_rejecting payment1 (get_charge_amount payment1) =
             Some ''Cannot charge this amount.''"
    using r by simp
  have h3': "clean_capture (env_of gw_ok) payment1 (get_charge_amount payment1) = None"
    using h3 by simp
  from h1 h2 r' c0 h3' n1 n2 c1 c2 h2' h5 h6 c3 show ?thesis by blast
qed

subsection \<open>No duplicate ledger rows\<close>

text \<open>
  C1, as stated, fails on the refund of a manual payment, which calls
  \<open>create_transaction\<close> directly: a second refund inserts a second successful REFUND
  row with the same payment, kind and token as the first.
\<close>

theorem manual_refund_duplicate_counterexample:
  "is_manual payment2_manual \<and> refund2 \<in> set (ledger state2) \<and> is_success refund2 \<and>
   fst (run (env_of gw_ok) (Refund None) payment2_manual state2) = Inr refund2_again \<and>
   ledger (snd (run (env_of gw_ok) (Refund None) payment2_manual state2)) =
     ledger state2 @ [refund2_again] \<and>
   payment_id refund2_again = payment_id refund2 \<and> kind refund2_again = kind refund2 \<and>
   token refund2_again = token refund2"
  by (simp add: eval_defs)

text \<open>
  C1, amended. On every path but the refund of a manual payment, for an active payment
  whose row exists: a call either leaves the ledger as it was, and then whatever it
  returns is an existing successful transaction of the kind the orchestrator writes, or
  appends exactly one row, and then no successful row with the same payment, kind and
  token existed before. And when the call reaches the gateway and the ledger already
  holds a successful transaction of the payment with the kind the orchestrator writes
  and the correlating token of the attempt (the token of the validated response, or the
  token of the payload when the gateway function raises a gateway or payment error or
  the response fails validation), the call returns the last such transaction and inserts
  nothing.
\<close>

theorem no_duplicate_rows:
  assumes "is_active p" and "select_for_update p s = (Inr row, s1)"
    and "\<not> (is_refund op \<and> is_manual row)"
  shows "((ledger (snd (run ev op p s)) = ledger s \<and>
            (\<forall>t. fst (run ev op p s) = Inr t \<longrightarrow>
                 t \<in> set (ledger s) \<and> kind t = kind_written op \<and> is_success t)) \<or>
          (\<exists>t. ledger (snd (run ev op p s)) = ledger s @ [t] \<and> kind t = kind_written op \<and>
               \<not> (\<exists>u \<in> set (ledger s). payment_id u = payment_id t \<and> kind u = kind t \<and>
                     token u = token t \<and> is_success u))) \<and>
         (\<forall>tag gw pd tok.
            gateway_calls (snd (run ev op p s)) = gateway_calls s @ [(tag, gw, pd)] \<and>
            ((\<exists>r. gateway_function ev op gw pd = Returns r \<and>
                  validate_gateway_response ev r = None \<and> tok = transaction_id r) \<or>
             (tok = pd_token pd \<and>
              ((\<exists>m. gateway_function ev op gw pd = Raises (GatewayError m)) \<or>
               (\<exists>m. gateway_function ev op gw pd = Raises (PaymentError m)) \<or>
               (\<exists>r m. gateway_function ev op gw pd = Returns r \<and>
                      validate_gateway_response ev r = Some m)))) \<and>
            (\<exists>u \<in> set (ledger s). payment_id u = pid row \<and> kind u = kind_written op \<and>
                token u = tok \<and> is_success u) \<longrightarrow>
            fst (run ev op p s) =
              Inr (last (filter (\<lambda>t. payment_id t = pid row \<and> kind t = kind_written op \<and>
                                     token t = tok \<and> is_success t) (ledger s))) \<and>
            ledger (snd (run ev op p s)) = ledger s)"
proof -
  have "payments s (pid p) = Some row"
    using select_for_update_state [OF assms(2)] by simp
  with assms(3)
  have "\<not> (is_refund op \<and> (\<exists>row. payments s (pid p) = Some row \<and> is_manual row))"
    by simp
  note inv = run_ledger [OF this, of ev]
  show ?thesis
  proof (rule conjI)
    show "(ledger (snd (run ev op p s)) = ledger s \<and>
            (\<forall>t. fst (run ev op p s) = Inr t \<longrightarrow>
                 t \<in> set (ledger s) \<and> kind t = kind_written op \<and> is_success t)) \<or>
          (\<exists>t. ledger (snd (run ev op p s)) = ledger s @ [t] \<and> kind t = kind_written op \<and>
               \<not> (\<exists>u \<in> set (ledger s). payment_id u = payment_id t \<and> kind u = kind t \<and>
                     token u = token t \<and> is_success u))"
      by (rule inv)
  next
    show "\<forall>tag gw pd tok.
            gateway_calls (snd (run ev op p s)) = gateway_calls s @ [(tag, gw, pd)] \<and>
            ((\<exists>r. gateway_function ev op gw pd = Returns r \<and>
                  validate_gateway_response ev r = None \<and> tok = transaction_id r) \<or>
             (tok = pd_token pd \<and>
              ((\<exists>m. gateway_function ev op gw pd = Raises (GatewayError m)) \<or>
               (\<exists>m. gateway_function ev op gw pd = Raises (PaymentError m)) \<or>
               (\<exists>r m. gateway_function ev op gw pd = Returns r \<and>
                      validate_gateway_response ev r = Some m)))) \<and>
            (\<exists>u \<in> set (ledger s). payment_id u = pid row \<and> kind u = kind_written op \<and>
                token u = tok \<and> is_success u) \<longrightarrow>
            fst (run ev op p s) =
              Inr (last (filter (\<lambda>t. payment_id t = pid row \<and> kind t = kind_written op \<and>
                                     token t = tok \<and> is_success t) (ledger s))) \<and>
            ledger (snd (run ev op p s)) = ledger s"
    proof (intro allI, rule impI)
      fix tag gw pd tok
      assume h: "gateway_calls (snd (run ev op p s)) = gateway_calls s @ [(tag, gw, pd)] \<and>
            ((\<exists>r. gateway_function ev op gw pd = Returns r \<and>
                  validate_gateway_response ev r = None \<and> tok = transaction_id r) \<or>
             (tok = pd_token pd \<and>
              ((\<exists>m. gateway_function ev op gw pd = Raises (GatewayError m)) \<or>
               (\<exists>m. gateway_function ev op gw pd = Raises (PaymentError m)) \<or>
               (\<exists>r m. gateway_function ev op gw pd = Returns r \<and>
                      validate_gateway_response ev r = Some m)))) \<and>
            (\<exists>u \<in> set (ledger s). payment_id u = pid row \<and> kind u = kind_written op \<and>
                token u = tok \<and> is_success u)"
      show "fst (run ev op p s) =
              Inr (last (filter (\<lambda>t. payment_id t = pid row \<and> kind t = kind_written op \<and>
                                     token t = tok \<and> is_success t) (ledger s))) \<and>
            ledger (snd (run ev op p s)) = ledger s"
        by (rule run_reuse [OF assms h [THEN conjunct1] h [THEN conjunct2, THEN conjunct1]
              h [THEN conjunct2, THEN conjunct2]])
    qed
  qed
qed

theorem no_duplicate_rows_witness:
  "is_active payment1 \<and>
   run (env_of gw_ok) (Capture None False) payment1 state1 =
     (Inr capture1, state1_after_capture) \<and>
   select_for_update payment1 state1_after_capture =
     (Inr payment1, snd (select_for_update payment1 state1_after_capture)) \<and>
   \<not> (is_refund (Capture None False) \<and> is_manual payment1) \<and>
   fst (run (env_of gw_ok) (Capture None False) payment1 state1_after_capture) =
     Inr capture1 \<and>
   ledger (snd (run (env_of gw_ok) (Capture None False) payment1 state1_after_capture)) =
     [auth1, capture1] \<and>
   select_for_update payment1 state1_voided =
     (Inr payment1, snd (select_for_update payment1 state1_voided)) \<and>
   \<not> (is_refund Void \<and> is_manual payment1) \<and>
   gateway_function (env_of gw_raises) Void ''dummy'' payload1 =
     Raises (GatewayError ''connection reset by 10.0.0.7'') \<and>
   fst (run (env_of gw_raises) Void payment1 state1_voided) = Inr void_a1 \<and>
   ledger (snd (run (env_of gw_raises) Void payment1 state1_voided)) = [auth1, void_a1]"
proof -
  let ?s = "state1_after_capture"
  let ?r = "\<lparr>gr_is_success = True, transaction_id = ''T1'', gr_action_required = False,
             gr_error = None, payment_method_info = None, raw_response = ''{}''\<rparr>"
  have a: "is_active payment1"
    by (simp add: payment1_def)
  have first: "run (env_of gw_ok) (Capture None False) payment1 state1 =
                 (Inr capture1, state1_after_capture)"
    by (simp add: eval_defs)
  have a2: "ledger ?s = [auth1, capture1]"
    by (simp add: state1_after_capture_def)
  have sel: "select_for_update payment1 ?s = (Inr payment1, snd (select_for_update payment1 ?s))"
    by (simp add: eval_defs)
  have nm: "\<not> (is_refund (Capture None False) \<and> is_manual payment1)"
    by simp
  have reach: "gateway_calls (snd (run (env_of gw_ok) (Capture None False) payment1 ?s)) =
                 gateway_calls ?s @ [(CapturePayment, ''dummy'', payload_capture1)]"
    by (simp add: eval_defs)
  have out: "\<exists>r. gateway_function (env_of gw_ok) (Capture None False) ''dummy''
                    payload_capture1 = Returns r \<and>
                 validate_gateway_response (env_of gw_ok) r = None \<and>
                 ''T1'' = transaction_id r"
    by (rule exI [of _ ?r]) (simp add: env_of_def manager_of_def gw_ok_def)
  have ex: "\<exists>u \<in> set (ledger ?s). payment_id u = pid payment1 \<and>
              kind u = kind_written (Capture None False) \<and> token u = ''T1'' \<and> is_success u"
    unfolding a2 by (simp add: capture1_def payment1_def)
  have lastv: "last (filter (\<lambda>t. payment_id t = pid payment1 \<and>
                  kind t = kind_written (Capture None False) \<and> token t = ''T1'' \<and>
                  is_success t) [auth1, capture1]) = capture1"
    by (simp add: capture1_def auth1_def payment1_def)
  note T = no_duplicate_rows [OF a sel nm, of "env_of gw_ok", THEN conjunct2, rule_format,
      of CapturePayment "''dummy''" payload_capture1 "''T1''"]
  have "fst (run (env_of gw_ok) (Capture None False) payment1 ?s) =
          Inr (last (filter (\<lambda>t. payment_id t = pid payment1 \<and>
                  kind t = kind_written (Capture None False) \<and> token t = ''T1'' \<and>
                  is_success t) (ledger ?s))) \<and>
        ledger (snd (run (env_of gw_ok) (Capture None False) payment1 ?s)) = ledger ?s"
    by (rule T) (intro conjI disjI1 reach out ex)
  then have b: "fst (run (env_of gw_ok) (Capture None False) payment1 ?s) = Inr capture1 \<and>
        ledger (snd (run (env_of gw_ok) (Capture None False) payment1 ?s)) = [auth1, capture1]"
    unfolding a2 lastv .
  have sel2: "select_for_update payment1 state1_voided =
     (Inr payment1, snd (select_for_update payment1 state1_voided))"
    by (simp add: eval_defs)
  have nm2: "\<not> (is_refund Void \<and> is_manual payment1)"
    by simp
  have reach2: "gateway_calls (snd (run (env_of gw_raises) Void payment1 state1_voided)) =
                 gateway_calls state1_voided @ [(VoidPayment, ''dummy'', payload1)]"
    by (simp add: eval_defs)
  have out2: "gateway_function (env_of gw_raises) Void ''dummy'' payload1 =
     Raises (GatewayError ''connection reset by 10.0.0.7'')"
    by (simp add: env_of_def manager_of_def gw_raises_def)
  have tk2: "''A1'' = pd_token payload1"
    by (simp add: payload1_def create_payment_information_def)
  have l2: "ledger state1_voided = [auth1, void_a1]"
    by (simp add: state1_voided_def)
  have ex2: "\<exists>u \<in> set (ledger state1_voided). payment_id u = pid payment1 \<and>
              kind u = kind_written Void \<and> token u = ''A1'' \<and> is_success u"
    unfolding l2 by (simp add: void_a1_def payment1_def)
  have lastv2: "last (filter (\<lambda>t. payment_id t = pid payment1 \<and> kind t = kind_written Void \<and>
                  token t = ''A1'' \<and> is_success t) [auth1, void_a1]) = void_a1"
    by (simp add: void_a1_def auth1_def payment1_def)
  note V = no_duplicate_rows [OF a sel2 nm2, of "env_of gw_raises", THEN conjunct2, rule_format,
      of VoidPayment "''dummy''" payload1 "''A1''"]
  have "fst (run (env_of gw_raises) Void payment1 state1_voided) =
          Inr (last (filter (\<lambda>t. payment_id t = pid payment1 \<and> kind t = kind_written Void \<and>
                  token t = ''A1'' \<and> is_success t) (ledger state1_voided))) \<and>
        ledger (snd (run (env_of gw_raises) Void payment1 state1_voided)) =
          ledger state1_voided"
    by (rule V) (intro conjI disjI2 disjI1 exI [of _ "''connection reset by 10.0.0.7''"]
        reach2 out2 tk2 ex2)
  then have c: "fst (run (env_of gw_raises) Void payment1 state1_voided) = Inr void_a1 \<and>
        ledger (snd (run (env_of gw_raises) Void payment1 state1_voided)) = [auth1, void_a1]"
    unfolding l2 lastv2 .
  show ?thesis
    by (intro conjI a first sel nm b [THEN conjunct1] b [THEN conjunct2] sel2 nm2 out2
        c [THEN conjunct1] c [THEN conjunct2])
qed

end
